theory Spec2Isabelle
  imports Complex_Main "HOL-Library.Word" "HOL-Library.Multiset"
begin

section \<open>The terminal side of the render engine\<close>

text \<open>
  The file \<^verbatim>\<open>render_engine.c\<close> has two entry points. This first part embeds
  \<^verbatim>\<open>Render_Engine_DisplayFrame\<close> and the UART helpers it calls; the renderer follows in
  later sections.

  Conventions of the embedding.
  \<^item> \<^verbatim>\<open>uint8_t\<close> is \<open>8 word\<close>, \<^verbatim>\<open>uint16_t\<close> is \<open>16 word\<close>.
  \<^item> The headers \<^verbatim>\<open>render_engine.h\<close>, \<^verbatim>\<open>uart.h\<close> and \<^verbatim>\<open>terminal.h\<close> are not part of
    the sources. The framebuffer has the fields the code reads (\<^verbatim>\<open>width\<close>, \<^verbatim>\<open>height\<close>,
    \<^verbatim>\<open>buffer\<close>); width and height are bytes, as the code stores their halves in
    \<^verbatim>\<open>uint8_t\<close> and the specification bounds them by 255.
  \<^item> The UART is the sequence of bytes handed to \<^verbatim>\<open>hal_UART_TxByte\<close> on the channel, oldest
    first. \<^verbatim>\<open>writeTerminalBlock\<close> busy-waits for space and then appends one byte;
    \<^verbatim>\<open>Render_Engine_DisplayFrame\<close> first busy-waits until the channel has stopped
    transmitting. Both waits are the HAL's business and are not modelled.
  \<^item> A read or write of \<^verbatim>\<open>frame->buffer[i]\<close> with \<open>i\<close> beyond the buffer is a fault of the
    model, not a silent no-op.
\<close>

type_synonym u8 = "8 word"
type_synonym u16 = "16 word"

datatype fault =
    OutOfBounds        \<comment> \<open>\<^verbatim>\<open>frame->buffer[i]\<close> with \<open>i\<close> outside the buffer\<close>
  | SlopeDivByZero     \<comment> \<open>a slope whose difference of x values is zero\<close>
  | NonFinite          \<comment> \<open>a division by a zero angle per pixel: infinite or NaN coordinates\<close>
  | NoCenter           \<comment> \<open>\<^verbatim>\<open>center\<close> read although no branch assigned it\<close>

record framebuffer_t =
  width :: u8
  height :: u8
  buffer :: "u8 list"

definition writeTerminalBlock :: "u8 list \<Rightarrow> u8 \<Rightarrow> u8 list" where
  "writeTerminalBlock uart data = uart @ [data]"

text \<open>
  \<^verbatim>\<open>writeTerminalNumber\<close>: three digit positions, each written when it is non-zero or a
  higher digit has been written. All arithmetic is on \<^verbatim>\<open>uint8_t\<close>; \<^verbatim>\<open>'0'\<close> is 48.
\<close>

definition writeTerminalNumber :: "u8 list \<Rightarrow> u8 \<Rightarrow> u8 list" where
  "writeTerminalNumber uart number =
    (let atDigits0 = False;
         hundreds = (number div 100) mod 10;
         (atDigits1, uart1) =
            (if hundreds > 0 then (True, writeTerminalBlock uart (hundreds + 48))
             else (atDigits0, uart));
         tens = (number div 10) mod 10;
         (atDigits2, uart2) =
            (if tens > 0 \<or> atDigits1 then (True, writeTerminalBlock uart1 (tens + 48))
             else (atDigits1, uart1));
         ones = number mod 10
     in if ones > 0 \<or> atDigits2 then writeTerminalBlock uart2 (ones + 48) else uart2)"

text \<open>\<^verbatim>\<open>'\e'\<close> is 27, \<^verbatim>\<open>'['\<close> 91, \<^verbatim>\<open>';'\<close> 59, \<^verbatim>\<open>'H'\<close> 72, \<^verbatim>\<open>'m'\<close> 109.\<close>

definition changeTerminalCursorLocation :: "u8 list \<Rightarrow> u8 \<Rightarrow> u8 \<Rightarrow> u8 list" where
  "changeTerminalCursorLocation uart x y =
    (let u1 = writeTerminalBlock uart 27;
         u2 = writeTerminalBlock u1 91;
         u3 = writeTerminalNumber u2 (y + 1);
         u4 = writeTerminalBlock u3 59;
         u5 = writeTerminalNumber u4 (x + 1)
     in writeTerminalBlock u5 72)"

definition changeTerminalColor :: "u8 list \<Rightarrow> u8 \<Rightarrow> u8 list" where
  "changeTerminalColor uart color =
    (let u1 = writeTerminalBlock uart 27;
         u2 = writeTerminalBlock u1 91;
         u3 = writeTerminalNumber u2 color
     in writeTerminalBlock u3 109)"

text \<open>
  The loop of \<^verbatim>\<open>Render_Engine_DisplayFrame\<close> from index \<open>i\<close> up to \<open>n\<close> (the code's
  \<^verbatim>\<open>frame->width * frame->height\<close>, at most 65025, so the \<^verbatim>\<open>uint16_t\<close> counter does not
  wrap). Its state is \<^verbatim>\<open>lastColor\<close> and the bytes sent. \<^verbatim>\<open>'\r'\<close> is 13, \<^verbatim>\<open>'\n'\<close> 10,
  \<^verbatim>\<open>' '\<close> 32.
\<close>

function displayLoop :: "framebuffer_t \<Rightarrow> nat \<Rightarrow> nat \<Rightarrow> u8 \<Rightarrow> u8 list \<Rightarrow> fault + u8 list" where
  "displayLoop frame n i lastColor uart =
    (if i < n then
       (let uart1 = (if i > 0 \<and> i mod unat (width frame) = 0
                     then writeTerminalBlock (writeTerminalBlock uart 13) 10 else uart)
        in if i < length (buffer frame) then
             (let cell = buffer frame ! i;
                  (lastColor', uart2) =
                     (if lastColor \<noteq> cell then (cell, changeTerminalColor uart1 cell)
                      else (lastColor, uart1))
              in displayLoop frame n (i + 1) lastColor' (writeTerminalBlock uart2 32))
           else Inl OutOfBounds)
     else Inr uart)"
  by pat_completeness auto
termination
  by (relation "measure (\<lambda>(frame, n, i, lastColor, uart). n - i)") auto

declare displayLoop.simps [simp del]

definition Render_Engine_DisplayFrame :: "u8 list \<Rightarrow> framebuffer_t \<Rightarrow> fault + u8 list" where
  "Render_Engine_DisplayFrame uart frame =
    displayLoop frame (unat (width frame) * unat (height frame)) 0 0
      (changeTerminalCursorLocation uart 0 0)"

section \<open>Numbers and geometry of the renderer\<close>

text \<open>
  \<^verbatim>\<open>rounding_t\<close> is the floating-point type of \<^verbatim>\<open>render_engine.h\<close> (not part of the
  sources). It is embedded as \<open>real\<close>: sums, products, comparisons, \<^verbatim>\<open>floor\<close> and
  \<^verbatim>\<open>fabs\<close> are the exact ones, and the functions of \<^verbatim>\<open>math.h\<close> are the mathematical
  functions they approximate. Rounding, infinities and NaN are therefore outside the
  embedding, with three exceptions that later sections write out: the narrowing of the
  two squared distances to \<^verbatim>\<open>float\<close> in \<^verbatim>\<open>compareTriangles\<close>, the conversion to
  \<^verbatim>\<open>uint16_t\<close> in \<^verbatim>\<open>paintPixelf\<close>, and the comparisons of the left, right and centre
  point when a coordinate is a NaN. Where C would produce an infinite or NaN coordinate
  from a division by a zero angle per pixel, the embedding stops with a fault instead
  of following HOL's \<open>x / 0 = 0\<close>; a walk between two infinite coordinates would not
  end.

  The source's \<^verbatim>\<open>M_PI\<close> is the floating-point number nearest to \<open>pi\<close>, the very number
  \<^verbatim>\<open>atan2(0, -1)\<close> returns. With exact functions it is \<open>pi\<close> itself, so that the two
  stay equal as they are in the code.
\<close>

definition M_PI :: real where
  "M_PI = pi"

text \<open>\<^verbatim>\<open>fmod\<close>: the remainder of the quotient truncated towards zero, as C defines it.\<close>

definition fmod :: "real \<Rightarrow> real \<Rightarrow> real" where
  "fmod a b = a - b * of_int (if a / b \<ge> 0 then \<lfloor>a / b\<rfloor> else \<lceil>a / b\<rceil>)"

text \<open>\<^verbatim>\<open>atan2(y, x)\<close>: the angle of the point \<open>(x, y)\<close>, in \<open>(-pi, pi]\<close>.\<close>

definition atan2 :: "real \<Rightarrow> real \<Rightarrow> real" where
  "atan2 b a =
    (if a > 0 then arctan (b / a)
     else if a < 0 \<and> b \<ge> 0 then arctan (b / a) + pi
     else if a < 0 then arctan (b / a) - pi
     else if b > 0 then pi / 2
     else if b < 0 then - pi / 2
     else 0)"

record vector_t =
  vx :: real
  vy :: real
  vz :: real

record point_t =
  px :: real
  py :: real

record triangle_t =
  t_color :: u8
  t_p1 :: vector_t
  t_p2 :: vector_t
  t_p3 :: vector_t

record camera_t =
  location :: vector_t
  rotation :: vector_t
  fovHorizontal :: real
  fovVertical :: real

text \<open>
  The world's \<^verbatim>\<open>triangles\<close> array with its \<^verbatim>\<open>numTriangles\<close> entries is a list; the
  count is its length.
\<close>

record world_t =
  backgroundColor :: u8
  triangles :: "triangle_t list"

subsection \<open>Camera angles (lines 31 to 47)\<close>

definition normalizedYawDegrees :: "camera_t \<Rightarrow> real" where
  "normalizedYawDegrees camera =
    (let a0 = vz (rotation camera);
         a1 = (if vz (rotation camera) < 0 then - a0 else a0);
         a2 = fmod (a1 + 180) 360 - 180
     in if vz (rotation camera) < 0 then - a2 else a2)"

definition cameraHorizontalAngle :: "camera_t \<Rightarrow> real" where
  "cameraHorizontalAngle camera = normalizedYawDegrees camera * (M_PI / 180)"

definition cameraVerticalAngle :: "camera_t \<Rightarrow> real" where
  "cameraVerticalAngle camera = (vy (rotation camera) * M_PI) / 180"

text \<open>
  The third component is the conditional expression of line 47 as written: the tangent
  when the angle is at most \<open>-90\<close> or at least \<open>90\<close>, otherwise the difference of the
  two comparisons (each 0 or 1 in C) times 10000.
\<close>

definition cameraDirection :: "camera_t \<Rightarrow> vector_t" where
  "cameraDirection camera =
    \<lparr>vx = cos (cameraHorizontalAngle camera),
     vy = sin (cameraHorizontalAngle camera),
     vz = (if cameraVerticalAngle camera \<le> - 90 \<or> cameraVerticalAngle camera \<ge> 90
           then tan (cameraVerticalAngle camera)
           else of_int (((if cameraVerticalAngle camera > 0 then 1 else 0)
                         - (if cameraVerticalAngle camera < 0 then 1 else 0)) * 10000))\<rparr>"

subsection \<open>Projection, dot product, comparator\<close>

definition pointToScreen ::
  "vector_t \<Rightarrow> real \<Rightarrow> real \<Rightarrow> real \<Rightarrow> real \<Rightarrow> u8 \<Rightarrow> u8 \<Rightarrow> fault + point_t" where
  "pointToScreen delta camHAngle camVAngle angleHPixel angleVPixel halfWidth halfHeight =
    (let angleHorizontal0 =
           (if vx delta = 0 \<and> vy delta = 0 then 0
            else atan2 (vy delta) (vx delta) - camHAngle);
         angleHorizontal =
           (if angleHorizontal0 \<le> - M_PI then angleHorizontal0 + 2 * M_PI
            else if angleHorizontal0 > M_PI then angleHorizontal0 - 2 * M_PI
            else angleHorizontal0)
     in if angleHPixel = 0 then Inl NonFinite
        else
          (let screen_x = real (unat halfWidth) - angleHorizontal / angleHPixel;
               angleVertical =
                 (if vx delta = 0 \<and> vy delta = 0 \<and> vz delta = 0 then 0
                  else atan2 (vz delta) (sqrt (vx delta * vx delta + vy delta * vy delta))
                       - camVAngle)
           in if angleVPixel = 0 then Inl NonFinite
              else Inr \<lparr>px = screen_x,
                        py = real (unat halfHeight) - angleVertical / angleVPixel\<rparr>))"

definition dotProduct :: "vector_t \<Rightarrow> vector_t \<Rightarrow> real" where
  "dotProduct a b = vx a * vx b + vy a * vy b + vz a * vz b"

text \<open>
  Floating-point values where the embedding needs more than the real numbers: a number,
  an infinity or a NaN. Every comparison with a NaN is false, and the difference of
  two equal infinities is a NaN.
\<close>

datatype fp_t = MinusInfinity | Number real | PlusInfinity | NaN

definition fp_less :: "fp_t \<Rightarrow> fp_t \<Rightarrow> bool" where
  "fp_less a b =
    (case (a, b) of
       (MinusInfinity, Number y) \<Rightarrow> True
     | (MinusInfinity, PlusInfinity) \<Rightarrow> True
     | (Number x, Number y) \<Rightarrow> x < y
     | (Number x, PlusInfinity) \<Rightarrow> True
     | (_, _) \<Rightarrow> False)"

definition fp_greater :: "fp_t \<Rightarrow> fp_t \<Rightarrow> bool" where
  "fp_greater a b = fp_less b a"

definition fp_equal :: "fp_t \<Rightarrow> fp_t \<Rightarrow> bool" where
  "fp_equal a b = (a = b \<and> a \<noteq> NaN)"

definition fp_minus :: "fp_t \<Rightarrow> fp_t \<Rightarrow> fp_t" where
  "fp_minus a b =
    (case (a, b) of
       (Number x, Number y) \<Rightarrow> Number (x - y)
     | (Number x, MinusInfinity) \<Rightarrow> PlusInfinity
     | (Number x, PlusInfinity) \<Rightarrow> MinusInfinity
     | (PlusInfinity, Number y) \<Rightarrow> PlusInfinity
     | (PlusInfinity, MinusInfinity) \<Rightarrow> PlusInfinity
     | (MinusInfinity, Number y) \<Rightarrow> MinusInfinity
     | (MinusInfinity, PlusInfinity) \<Rightarrow> MinusInfinity
     | (_, _) \<Rightarrow> NaN)"

text \<open>
  The narrowing of a real number to \<^verbatim>\<open>float\<close> (IEEE 754 binary32): the nearest number
  with a significand of 24 bits, ties to the even one. Below 2 to the power -126 the
  spacing stays 2 to the power -149, and a result of 2 to the power 128 or more is an
  infinity.
\<close>

definition roundToEven :: "real \<Rightarrow> int" where
  "roundToEven m =
    (if m - of_int \<lfloor>m\<rfloor> < 1 / 2 then \<lfloor>m\<rfloor>
     else if m - of_int \<lfloor>m\<rfloor> > 1 / 2 then \<lfloor>m\<rfloor> + 1
     else if even \<lfloor>m\<rfloor> then \<lfloor>m\<rfloor> else \<lfloor>m\<rfloor> + 1)"

definition floatExponent :: "real \<Rightarrow> int" where
  "floatExponent v = max (- 126) \<lfloor>log 2 \<bar>v\<bar>\<rfloor>"

definition to_float :: "real \<Rightarrow> fp_t" where
  "to_float v =
    (if v = 0 then Number 0
     else
       (let ulp = 2 powr (of_int (floatExponent v - 23));
            r = of_int (roundToEven (\<bar>v\<bar> / ulp)) * ulp
        in if r \<ge> 2 ^ 128 then (if v > 0 then PlusInfinity else MinusInfinity)
           else Number (if v > 0 then r else - r)))"

text \<open>
  \<^verbatim>\<open>compareTriangles\<close> reads the file-level \<^verbatim>\<open>compareCamera\<close>; here it is the first
  argument. \<^verbatim>\<open>centroidDistance\<close> is the \<^verbatim>\<open>rounding_t\<close> expression of lines 406 to 408;
  \<^verbatim>\<open>distA\<close> and \<^verbatim>\<open>distB\<close> are declared \<^verbatim>\<open>float\<close>, so the comparisons see the narrowed
  values.
\<close>

definition centroidDistance :: "camera_t \<Rightarrow> triangle_t \<Rightarrow> real" where
  "centroidDistance compareCamera tri =
    (let center = \<lparr>vx = (vx (t_p1 tri) + vx (t_p2 tri) + vx (t_p3 tri)) / 3,
                    vy = (vy (t_p1 tri) + vy (t_p2 tri) + vy (t_p3 tri)) / 3,
                    vz = (vz (t_p1 tri) + vz (t_p2 tri) + vz (t_p3 tri)) / 3\<rparr>
     in (vx center - vx (location compareCamera)) * (vx center - vx (location compareCamera))
      + (vy center - vy (location compareCamera)) * (vy center - vy (location compareCamera))
      + (vz center - vz (location compareCamera)) * (vz center - vz (location compareCamera)))"

definition compareTriangles :: "camera_t \<Rightarrow> triangle_t \<Rightarrow> triangle_t \<Rightarrow> int" where
  "compareTriangles compareCamera triA triB =
    (let distA = to_float (centroidDistance compareCamera triA);
         distB = to_float (centroidDistance compareCamera triB)
     in if fp_equal distA distB then 0 else if fp_less distA distB then 1 else - 1)"

text \<open>
  \<^verbatim>\<open>qsort\<close> belongs to the C library. Its contract is that the array ends up a
  rearrangement of itself in which no element compares greater than a later one; the
  order of elements that compare equal is not fixed. The embedding sorts by insertion,
  one algorithm that meets the contract.
\<close>

fun qsort_insert :: "('a \<Rightarrow> 'a \<Rightarrow> int) \<Rightarrow> 'a \<Rightarrow> 'a list \<Rightarrow> 'a list" where
  "qsort_insert compar a [] = [a]"
| "qsort_insert compar a (b # bs) =
    (if compar a b \<le> 0 then a # b # bs else b # qsort_insert compar a bs)"

fun qsort :: "('a \<Rightarrow> 'a \<Rightarrow> int) \<Rightarrow> 'a list \<Rightarrow> 'a list" where
  "qsort compar [] = []"
| "qsort compar (a # as) = qsort_insert compar a (qsort compar as)"

subsection \<open>Painting\<close>

definition writeBuffer :: "framebuffer_t \<Rightarrow> nat \<Rightarrow> u8 \<Rightarrow> fault + framebuffer_t" where
  "writeBuffer frame i color =
    (if i < length (buffer frame) then Inr (frame\<lparr>buffer := (buffer frame)[i := color]\<rparr>)
     else Inl OutOfBounds)"

text \<open>
  \<^verbatim>\<open>paintPixel\<close>: the comparisons and the index are computed after the integer
  promotions; under the guard the index is below \<open>255 * 255\<close>, so it is the same number
  whatever the width of \<^verbatim>\<open>int\<close>.
\<close>

definition paintPixel :: "framebuffer_t \<Rightarrow> u16 \<Rightarrow> u16 \<Rightarrow> u8 \<Rightarrow> fault + framebuffer_t" where
  "paintPixel frame x y color =
    (if unat x < unat (width frame) \<and> unat y < unat (height frame)
     then writeBuffer frame (unat x + unat y * unat (width frame)) color
     else Inr frame)"

text \<open>
  The conversion \<^verbatim>\<open>(uint16_t) v\<close> of a non-negative \<open>v\<close> discards the fraction. C defines
  the result only when it is below 65536. For larger values the code goes on with
  whatever the conversion produced; the embedding takes the low 16 bits of the
  truncated value (65536 becomes 0), which is what a conversion through a wider integer
  type gives.
\<close>

definition to_uint16 :: "real \<Rightarrow> u16" where
  "to_uint16 v = word_of_int \<lfloor>v\<rfloor>"

definition paintPixelf :: "framebuffer_t \<Rightarrow> real \<Rightarrow> real \<Rightarrow> u8 \<Rightarrow> fault + framebuffer_t" where
  "paintPixelf frame x y color =
    (if x \<ge> 0 \<and> y \<ge> 0 then paintPixel frame (to_uint16 x) (to_uint16 y) color
     else Inr frame)"

text \<open>
  The column loop \<^verbatim>\<open>for (y = topY; y > bottomY; y--) paintPixelf(frame, x, y, color)\<close>,
  which the source writes six times (lines 163, 206, 231, 275, 306).
\<close>

function paintColumn :: "framebuffer_t \<Rightarrow> real \<Rightarrow> real \<Rightarrow> real \<Rightarrow> u8 \<Rightarrow> fault + framebuffer_t" where
  "paintColumn frame x y bottomY color =
    (if y > bottomY then
       (case paintPixelf frame x y color of
          Inl e \<Rightarrow> Inl e
        | Inr frame' \<Rightarrow> paintColumn frame' x (y - 1) bottomY color)
     else Inr frame)"
  by pat_completeness auto
termination
  by (relation "measure (\<lambda>(frame, x, y, bottomY, color). nat \<lceil>y - bottomY\<rceil>)") (auto, linarith)

declare paintColumn.simps [simp del]

subsection \<open>Left, right and centre point (lines 107 to 137)\<close>

text \<open>
  The selectors \<^verbatim>\<open>leftSel\<close> and \<^verbatim>\<open>rightSel\<close> hold 1, 2 or 3; they are natural numbers
  here. \<^verbatim>\<open>center\<close> is assigned in one of three branches and has no \<^verbatim>\<open>else\<close>: when
  none applies the variable keeps whatever it held, which the embedding reports as
  \<open>None\<close>.
\<close>

definition selectLeft :: "point_t \<Rightarrow> point_t \<Rightarrow> point_t \<Rightarrow> point_t \<times> nat" where
  "selectLeft p1 p2 p3 =
    (let (left0, leftSel0) = (p1, 1);
         (left1, leftSel1) = (if px left0 > px p2 then (p2, 2) else (left0, leftSel0))
     in if px left1 > px p3 then (p3, 3) else (left1, leftSel1))"

definition selectRight :: "point_t \<Rightarrow> point_t \<Rightarrow> point_t \<Rightarrow> nat \<Rightarrow> point_t \<times> nat" where
  "selectRight p1 p2 p3 leftSel =
    (let (right0, rightSel0) = (p3, 3);
         (right1, rightSel1) =
            (if (px right0 < px p2 \<or> leftSel = 3) \<and> leftSel \<noteq> 2 then (p2, 2)
             else (right0, rightSel0))
     in if px right1 < px p1 \<and> leftSel \<noteq> 1 then (p1, 1) else (right1, rightSel1))"

definition selectCenter :: "point_t \<Rightarrow> point_t \<Rightarrow> point_t \<Rightarrow> nat \<Rightarrow> nat \<Rightarrow> point_t option" where
  "selectCenter p1 p2 p3 leftSel rightSel =
    (if leftSel + rightSel = 3 then Some p3
     else if leftSel + rightSel = 4 then Some p2
     else if leftSel + rightSel = 5 then Some p1
     else None)"

text \<open>
  The same three steps on the x coordinates alone, for coordinates that may be infinite
  or NaN, and the divisors of the slopes that the shape then chosen computes: none for
  one vertical line, \<^verbatim>\<open>top.x - side.x\<close> and \<^verbatim>\<open>bottom.x - side.x\<close> for two points in line
  (the top and the bottom are the two points of equal x, whichever is higher), and the
  three differences of lines 251 to 253 otherwise.
\<close>

definition selectLeftX :: "fp_t \<Rightarrow> fp_t \<Rightarrow> fp_t \<Rightarrow> fp_t \<times> nat" where
  "selectLeftX x1 x2 x3 =
    (let (left0, leftSel0) = (x1, 1);
         (left1, leftSel1) = (if fp_greater left0 x2 then (x2, 2) else (left0, leftSel0))
     in if fp_greater left1 x3 then (x3, 3) else (left1, leftSel1))"

definition selectRightX :: "fp_t \<Rightarrow> fp_t \<Rightarrow> fp_t \<Rightarrow> nat \<Rightarrow> fp_t \<times> nat" where
  "selectRightX x1 x2 x3 leftSel =
    (let (right0, rightSel0) = (x3, 3);
         (right1, rightSel1) =
            (if (fp_less right0 x2 \<or> leftSel = 3) \<and> leftSel \<noteq> 2 then (x2, 2)
             else (right0, rightSel0))
     in if fp_less right1 x1 \<and> leftSel \<noteq> 1 then (x1, 1) else (right1, rightSel1))"

definition selectCenterX :: "fp_t \<Rightarrow> fp_t \<Rightarrow> fp_t \<Rightarrow> nat \<Rightarrow> nat \<Rightarrow> fp_t option" where
  "selectCenterX x1 x2 x3 leftSel rightSel =
    (if leftSel + rightSel = 3 then Some x3
     else if leftSel + rightSel = 4 then Some x2
     else if leftSel + rightSel = 5 then Some x1
     else None)"

definition slopeDivisors :: "fp_t \<Rightarrow> fp_t \<Rightarrow> fp_t \<Rightarrow> fp_t list" where
  "slopeDivisors x1 x2 x3 =
    (let (left, leftSel) = selectLeftX x1 x2 x3;
         (right, rightSel) = selectRightX x1 x2 x3 leftSel
     in case selectCenterX x1 x2 x3 leftSel rightSel of
          None \<Rightarrow> []
        | Some center \<Rightarrow>
            if fp_equal left center \<and> fp_equal center right then []
            else if fp_equal left center \<or> fp_equal center right then
              (if fp_equal left center
               then [fp_minus left right, fp_minus center right]
               else [fp_minus right left, fp_minus center left])
            else [fp_minus center left, fp_minus right left, fp_minus right center])"

subsection \<open>Scan conversion (lines 140 to 326)\<close>

text \<open>
  A slope is a quotient of two differences. In C a zero divisor gives an infinity or a
  NaN; the embedding reports it.
\<close>

definition slope :: "real \<Rightarrow> real \<Rightarrow> fault + real" where
  "slope dy dx = (if dx = 0 then Inl SlopeDivByZero else Inr (dy / dx))"

text \<open>
  \<^verbatim>\<open>if ((x - floor(x)) != 0.5) x = floor(x) + 0.5;\<close> at the end of every column of the
  four horizontal walks.
\<close>

definition snapToMiddle :: "real \<Rightarrow> real" where
  "snapToMiddle x = (if x - of_int \<lfloor>x\<rfloor> \<noteq> 1 / 2 then of_int \<lfloor>x\<rfloor> + 1 / 2 else x)"

text \<open>Lines 142 to 165: one vertical line.\<close>

definition oneVerticalLine ::
  "framebuffer_t \<Rightarrow> point_t \<Rightarrow> point_t \<Rightarrow> point_t \<Rightarrow> point_t \<Rightarrow> u8 \<Rightarrow> fault + framebuffer_t" where
  "oneVerticalLine frame p1 p2 p3 center color =
    (if px center < 0 \<or> px center \<ge> real (unat (width frame)) then Inr frame
     else
       (let max0 = py p1;
            max1 = (if max0 < py p2 then py p2 else max0);
            max2 = (if max1 < py p3 then py p3 else max1);
            min0 = py p1;
            min1 = (if min0 > py p2 then py p2 else min0);
            min2 = (if min1 > py p3 then py p3 else min1)
        in paintColumn frame (px center) max2 min2 color))"

text \<open>Lines 200 to 217: the walk from the vertical edge down to \<^verbatim>\<open>side.x\<close> on its left.\<close>

function walkLeft ::
  "framebuffer_t \<Rightarrow> real \<Rightarrow> point_t \<Rightarrow> real \<Rightarrow> real \<Rightarrow> u8 \<Rightarrow> fault + framebuffer_t" where
  "walkLeft frame x side upperSlope lowerSlope color =
    (if x > px side then
       (let topY = upperSlope * (x - px side) + py side;
            bottomY = lowerSlope * (x - px side) + py side
        in case paintColumn frame x topY bottomY color of
             Inl e \<Rightarrow> Inl e
           | Inr frame1 \<Rightarrow>
               (case paintPixelf frame1 x bottomY color of
                  Inl e \<Rightarrow> Inl e
                | Inr frame2 \<Rightarrow>
                    walkLeft frame2 (snapToMiddle x - 1) side upperSlope lowerSlope color))
     else Inr frame)"
  by pat_completeness auto
termination
proof (relation "measure (\<lambda>(frame, x, side, upperSlope, lowerSlope, color). nat \<lceil>2 * (x - px side)\<rceil>)")
  show "wf (measure (\<lambda>(frame, x, side, upperSlope, lowerSlope, color). nat \<lceil>2 * (x - px side)\<rceil>))"
    by simp
next
  fix frame :: framebuffer_t and x :: real and side :: point_t
    and upperSlope lowerSlope :: real and color :: u8
    and topY bottomY :: real and frame1 frame2 :: framebuffer_t
  assume "px side < x"
  moreover have "snapToMiddle x \<le> x + 1 / 2"
    by (simp add: snapToMiddle_def)
  ultimately have le: "2 * (snapToMiddle x - 1 - px side) \<le> 2 * (x - px side) - 1"
    and pos: "0 < 2 * (x - px side)"
    by (simp_all add: algebra_simps)
  have "\<lceil>2 * (snapToMiddle x - 1 - px side)\<rceil> \<le> \<lceil>2 * (x - px side) - 1\<rceil>"
    using le by (rule ceiling_mono)
  moreover have "0 < \<lceil>2 * (x - px side)\<rceil>"
    using pos by simp
  ultimately have "nat \<lceil>2 * (snapToMiddle x - 1 - px side)\<rceil> < nat \<lceil>2 * (x - px side)\<rceil>"
    by simp
  then show "((frame2, snapToMiddle x - 1, side, upperSlope, lowerSlope, color),
              (frame, x, side, upperSlope, lowerSlope, color))
        \<in> measure (\<lambda>(frame, x, side, upperSlope, lowerSlope, color). nat \<lceil>2 * (x - px side)\<rceil>)"
    by simp
qed

declare walkLeft.simps [simp del]

text \<open>Lines 225 to 242: the walk from the vertical edge up to \<^verbatim>\<open>side.x\<close> on its right.\<close>

function walkRight ::
  "framebuffer_t \<Rightarrow> real \<Rightarrow> point_t \<Rightarrow> real \<Rightarrow> real \<Rightarrow> u8 \<Rightarrow> fault + framebuffer_t" where
  "walkRight frame x side upperSlope lowerSlope color =
    (if x < px side then
       (let topY = upperSlope * (x - px side) + py side;
            bottomY = lowerSlope * (x - px side) + py side
        in case paintColumn frame x topY bottomY color of
             Inl e \<Rightarrow> Inl e
           | Inr frame1 \<Rightarrow>
               (case paintPixelf frame1 x bottomY color of
                  Inl e \<Rightarrow> Inl e
                | Inr frame2 \<Rightarrow>
                    walkRight frame2 (snapToMiddle x + 1) side upperSlope lowerSlope color))
     else Inr frame)"
  by pat_completeness auto
termination
proof (relation "measure (\<lambda>(frame, x, side, upperSlope, lowerSlope, color). nat \<lceil>2 * (px side - x)\<rceil>)")
  show "wf (measure (\<lambda>(frame, x, side, upperSlope, lowerSlope, color). nat \<lceil>2 * (px side - x)\<rceil>))"
    by simp
next
  fix frame :: framebuffer_t and x :: real and side :: point_t
    and upperSlope lowerSlope :: real and color :: u8
    and topY bottomY :: real and frame1 frame2 :: framebuffer_t
  assume "x < px side"
  moreover have "x - 1 / 2 \<le> snapToMiddle x"
    by (simp add: snapToMiddle_def) linarith
  ultimately have le: "2 * (px side - (snapToMiddle x + 1)) \<le> 2 * (px side - x) - 1"
    and pos: "0 < 2 * (px side - x)"
    by (simp_all add: algebra_simps)
  have "\<lceil>2 * (px side - (snapToMiddle x + 1))\<rceil> \<le> \<lceil>2 * (px side - x) - 1\<rceil>"
    using le by (rule ceiling_mono)
  moreover have "0 < \<lceil>2 * (px side - x)\<rceil>"
    using pos by simp
  ultimately have "nat \<lceil>2 * (px side - (snapToMiddle x + 1))\<rceil> < nat \<lceil>2 * (px side - x)\<rceil>"
    by simp
  then show "((frame2, snapToMiddle x + 1, side, upperSlope, lowerSlope, color),
              (frame, x, side, upperSlope, lowerSlope, color))
        \<in> measure (\<lambda>(frame, x, side, upperSlope, lowerSlope, color). nat \<lceil>2 * (px side - x)\<rceil>)"
    by simp
qed

declare walkRight.simps [simp del]

text \<open>
  Lines 258 to 286 and 289 to 317: the two spans of the general case. Their bodies
  differ only in the two slopes and in the point the lines are anchored at
  (\<^verbatim>\<open>left\<close> for the first, \<^verbatim>\<open>right\<close> for the second), which are arguments here.
  A \<^verbatim>\<open>continue\<close> skips the column and the snapping but not the \<^verbatim>\<open>x++\<close>.
\<close>

function walkSpan ::
  "framebuffer_t \<Rightarrow> real \<Rightarrow> real \<Rightarrow> real \<Rightarrow> real \<Rightarrow> point_t \<Rightarrow> u8 \<Rightarrow> fault + framebuffer_t" where
  "walkSpan frame x xEnd slopeA slopeB anchor color =
    (if x < xEnd then
       (if x < 0 \<or> x \<ge> real (unat (width frame))
        then walkSpan frame (x + 1) xEnd slopeA slopeB anchor color
        else
          (let topY0 = slopeA * (x - px anchor) + py anchor;
               bottomY0 = slopeB * (x - px anchor) + py anchor;
               topY = (if topY0 < bottomY0 then bottomY0 else topY0);
               bottomY = (if topY0 < bottomY0 then topY0 else bottomY0)
           in case paintColumn frame x topY bottomY color of
                Inl e \<Rightarrow> Inl e
              | Inr frame1 \<Rightarrow>
                  (case paintPixelf frame1 x bottomY color of
                     Inl e \<Rightarrow> Inl e
                   | Inr frame2 \<Rightarrow>
                       walkSpan frame2 (snapToMiddle x + 1) xEnd slopeA slopeB anchor color)))
     else Inr frame)"
  by pat_completeness auto
termination
proof (relation "measure (\<lambda>(frame, x, xEnd, slopeA, slopeB, anchor, color). nat \<lceil>2 * (xEnd - x)\<rceil>)")
  show "wf (measure (\<lambda>(frame, x, xEnd, slopeA, slopeB, anchor, color). nat \<lceil>2 * (xEnd - x)\<rceil>))"
    by simp
next
  fix frame :: framebuffer_t and x xEnd slopeA slopeB :: real and anchor :: point_t and color :: u8
  assume "x < xEnd"
  then have le: "2 * (xEnd - (x + 1)) \<le> 2 * (xEnd - x) - 1" and pos: "0 < 2 * (xEnd - x)"
    by (simp_all add: algebra_simps)
  have "\<lceil>2 * (xEnd - (x + 1))\<rceil> \<le> \<lceil>2 * (xEnd - x) - 1\<rceil>"
    using le by (rule ceiling_mono)
  moreover have "0 < \<lceil>2 * (xEnd - x)\<rceil>"
    using pos by simp
  ultimately have "nat \<lceil>2 * (xEnd - (x + 1))\<rceil> < nat \<lceil>2 * (xEnd - x)\<rceil>"
    by simp
  then show "((frame, x + 1, xEnd, slopeA, slopeB, anchor, color),
              (frame, x, xEnd, slopeA, slopeB, anchor, color))
        \<in> measure (\<lambda>(frame, x, xEnd, slopeA, slopeB, anchor, color). nat \<lceil>2 * (xEnd - x)\<rceil>)"
    by simp
next
  fix frame frame2 :: framebuffer_t and x xEnd slopeA slopeB :: real
    and anchor :: point_t and color :: u8
  assume "x < xEnd"
  moreover have "x - 1 / 2 \<le> snapToMiddle x"
    by (simp add: snapToMiddle_def) linarith
  ultimately have le: "2 * (xEnd - (snapToMiddle x + 1)) \<le> 2 * (xEnd - x) - 1"
    and pos: "0 < 2 * (xEnd - x)"
    by (simp_all add: algebra_simps)
  have "\<lceil>2 * (xEnd - (snapToMiddle x + 1))\<rceil> \<le> \<lceil>2 * (xEnd - x) - 1\<rceil>"
    using le by (rule ceiling_mono)
  moreover have "0 < \<lceil>2 * (xEnd - x)\<rceil>"
    using pos by simp
  ultimately have "nat \<lceil>2 * (xEnd - (snapToMiddle x + 1))\<rceil> < nat \<lceil>2 * (xEnd - x)\<rceil>"
    by simp
  then show "((frame2, snapToMiddle x + 1, xEnd, slopeA, slopeB, anchor, color),
              (frame, x, xEnd, slopeA, slopeB, anchor, color))
        \<in> measure (\<lambda>(frame, x, xEnd, slopeA, slopeB, anchor, color). nat \<lceil>2 * (xEnd - x)\<rceil>)"
    by simp
qed

declare walkSpan.simps [simp del]

text \<open>Lines 167 to 248: two points are in line vertically.\<close>

definition twoPointsInLine ::
  "framebuffer_t \<Rightarrow> point_t \<Rightarrow> point_t \<Rightarrow> point_t \<Rightarrow> u8 \<Rightarrow> fault + framebuffer_t" where
  "twoPointsInLine frame left center right color =
    (let (top, bottom, side, leftDirection) =
           (if px left = px center then
              (if py left > py center then (left, center, right, False)
               else (center, left, right, False))
            else
              (if py right > py center then (right, center, left, True)
               else (center, right, left, True)))
     in case slope (py top - py side) (px top - px side) of
          Inl e \<Rightarrow> Inl e
        | Inr upperSlope \<Rightarrow>
            (case slope (py bottom - py side) (px bottom - px side) of
               Inl e \<Rightarrow> Inl e
             | Inr lowerSlope \<Rightarrow>
                 if leftDirection then
                   (case walkLeft frame (px top) side upperSlope lowerSlope color of
                      Inl e \<Rightarrow> Inl e
                    | Inr frame1 \<Rightarrow>
                        if px side - \<bar>px side\<bar> > 1 / 2
                        then paintPixelf frame1 (px side) (py side) color
                        else Inr frame1)
                 else
                   (case walkRight frame (px top) side upperSlope lowerSlope color of
                      Inl e \<Rightarrow> Inl e
                    | Inr frame1 \<Rightarrow>
                        if px side - of_int \<lfloor>px side\<rfloor> < 1 / 2
                        then paintPixelf frame1 (px side) (py side) color
                        else Inr frame1)))"

text \<open>Lines 250 to 325: points are not directly in line vertically.\<close>

definition notInLine ::
  "framebuffer_t \<Rightarrow> point_t \<Rightarrow> point_t \<Rightarrow> point_t \<Rightarrow> u8 \<Rightarrow> fault + framebuffer_t" where
  "notInLine frame left center right color =
    (case slope (py center - py left) (px center - px left) of
       Inl e \<Rightarrow> Inl e
     | Inr slopeLeftCenter \<Rightarrow>
    (case slope (py right - py left) (px right - px left) of
       Inl e \<Rightarrow> Inl e
     | Inr slopeLeftRight \<Rightarrow>
    (case slope (py right - py center) (px right - px center) of
       Inl e \<Rightarrow> Inl e
     | Inr slopeCenterRight \<Rightarrow>
    (case walkSpan frame (px left) (px center) slopeLeftCenter slopeLeftRight left color of
       Inl e \<Rightarrow> Inl e
     | Inr frame1 \<Rightarrow>
    (case walkSpan frame1 (px center) (px right) slopeCenterRight slopeLeftRight right color of
       Inl e \<Rightarrow> Inl e
     | Inr frame2 \<Rightarrow>
         if px right - of_int \<lfloor>px right\<rfloor> < 1 / 2 then
           (if px right \<ge> 0 \<and> px right < real (unat (width frame2))
            then paintPixelf frame2 (px right) (py right) color
            else Inr frame2)
         else Inr frame2)))))"

text \<open>Lines 106 to 326: classification of the projected points and choice of the shape.\<close>

definition rasterize ::
  "framebuffer_t \<Rightarrow> point_t \<Rightarrow> point_t \<Rightarrow> point_t \<Rightarrow> u8 \<Rightarrow> fault + framebuffer_t" where
  "rasterize frame p1 p2 p3 color =
    (let (left, leftSel) = selectLeft p1 p2 p3;
         (right, rightSel) = selectRight p1 p2 p3 leftSel
     in case selectCenter p1 p2 p3 leftSel rightSel of
          None \<Rightarrow> Inl NoCenter
        | Some center \<Rightarrow>
            if px left = px center \<and> px center = px right
            then oneVerticalLine frame p1 p2 p3 center color
            else if px left = px center \<or> px center = px right
            then twoPointsInLine frame left center right color
            else notInLine frame left center right color)"

subsection \<open>The frame (lines 27 to 328)\<close>

text \<open>Lines 92 to 326 of the loop body: projection of the three corners, then the shape.\<close>

definition drawTriangle ::
  "real \<Rightarrow> real \<Rightarrow> real \<Rightarrow> real \<Rightarrow> u8 \<Rightarrow> u8 \<Rightarrow>
   framebuffer_t \<Rightarrow> vector_t \<Rightarrow> vector_t \<Rightarrow> vector_t \<Rightarrow> u8 \<Rightarrow> fault + framebuffer_t" where
  "drawTriangle cameraHAngle cameraVAngle anglePerPixelHorizontal anglePerPixelVertical
      halfWidth halfHeight frame p1Delta p2Delta p3Delta color =
    (case pointToScreen p1Delta cameraHAngle cameraVAngle
            anglePerPixelHorizontal anglePerPixelVertical halfWidth halfHeight of
       Inl e \<Rightarrow> Inl e
     | Inr p1 \<Rightarrow>
    (case pointToScreen p2Delta cameraHAngle cameraVAngle
            anglePerPixelHorizontal anglePerPixelVertical halfWidth halfHeight of
       Inl e \<Rightarrow> Inl e
     | Inr p2 \<Rightarrow>
    (case pointToScreen p3Delta cameraHAngle cameraVAngle
            anglePerPixelHorizontal anglePerPixelVertical halfWidth halfHeight of
       Inl e \<Rightarrow> Inl e
     | Inr p3 \<Rightarrow> rasterize frame p1 p2 p3 color)))"

definition vectorDelta :: "vector_t \<Rightarrow> vector_t \<Rightarrow> vector_t" where
  "vectorDelta p c = \<lparr>vx = vx p - vx c, vy = vy p - vy c, vz = vz p - vz c\<rparr>"

text \<open>Lines 74 to 326: the body of the loop over the sorted triangles.\<close>

definition renderTriangle ::
  "camera_t \<Rightarrow> vector_t \<Rightarrow> real \<Rightarrow> real \<Rightarrow> real \<Rightarrow> real \<Rightarrow> u8 \<Rightarrow> u8 \<Rightarrow>
   framebuffer_t \<Rightarrow> triangle_t \<Rightarrow> fault + framebuffer_t" where
  "renderTriangle camera cameraDir cameraHAngle cameraVAngle
      anglePerPixelHorizontal anglePerPixelVertical halfWidth halfHeight frame tri =
    (let p1Delta = vectorDelta (t_p1 tri) (location camera);
         p2Delta = vectorDelta (t_p2 tri) (location camera);
         p3Delta = vectorDelta (t_p3 tri) (location camera)
     in if dotProduct p1Delta cameraDir \<le> 0 \<and>
           dotProduct p2Delta cameraDir \<le> 0 \<and>
           dotProduct p3Delta cameraDir \<le> 0
        then Inr frame
        else drawTriangle cameraHAngle cameraVAngle anglePerPixelHorizontal anglePerPixelVertical
               halfWidth halfHeight frame p1Delta p2Delta p3Delta (t_color tri))"

fun renderTriangles ::
  "camera_t \<Rightarrow> vector_t \<Rightarrow> real \<Rightarrow> real \<Rightarrow> real \<Rightarrow> real \<Rightarrow> u8 \<Rightarrow> u8 \<Rightarrow>
   framebuffer_t \<Rightarrow> triangle_t list \<Rightarrow> fault + framebuffer_t" where
  "renderTriangles camera cameraDir cameraHAngle cameraVAngle
      anglePerPixelHorizontal anglePerPixelVertical halfWidth halfHeight frame [] = Inr frame"
| "renderTriangles camera cameraDir cameraHAngle cameraVAngle
      anglePerPixelHorizontal anglePerPixelVertical halfWidth halfHeight frame (tri # rest) =
    (case renderTriangle camera cameraDir cameraHAngle cameraVAngle
            anglePerPixelHorizontal anglePerPixelVertical halfWidth halfHeight frame tri of
       Inl e \<Rightarrow> Inl e
     | Inr frame' \<Rightarrow>
         renderTriangles camera cameraDir cameraHAngle cameraVAngle
           anglePerPixelHorizontal anglePerPixelVertical halfWidth halfHeight frame' rest)"

text \<open>Lines 51 to 53: the background fill, from index \<open>i\<close> up to \<^verbatim>\<open>bufLength\<close>.\<close>

function clearBuffer :: "framebuffer_t \<Rightarrow> nat \<Rightarrow> nat \<Rightarrow> u8 \<Rightarrow> fault + framebuffer_t" where
  "clearBuffer frame i bufLength color =
    (if i < bufLength then
       (case writeBuffer frame i color of
          Inl e \<Rightarrow> Inl e
        | Inr frame' \<Rightarrow> clearBuffer frame' (i + 1) bufLength color)
     else Inr frame)"
  by pat_completeness auto
termination
  by (relation "measure (\<lambda>(frame, i, bufLength, color). bufLength - i)") auto

declare clearBuffer.simps [simp del]

text \<open>
  \<^verbatim>\<open>compareCamera\<close> is a file-level variable, zero until written; the renderer stores
  the camera's location in it before sorting.
\<close>

definition compareCameraFor :: "camera_t \<Rightarrow> camera_t" where
  "compareCameraFor camera =
    \<lparr>location = \<lparr>vx = vx (location camera), vy = vy (location camera),
                  vz = vz (location camera)\<rparr>,
     rotation = \<lparr>vx = 0, vy = 0, vz = 0\<rparr>,
     fovHorizontal = 0, fovVertical = 0\<rparr>"

definition sortedTriangles :: "world_t \<Rightarrow> camera_t \<Rightarrow> triangle_t list" where
  "sortedTriangles world camera =
    qsort (compareTriangles (compareCameraFor camera)) (triangles world)"

text \<open>
  The test of lines 86 to 88 on the heading of the camera: none of the three corners,
  taken relative to the camera, has a positive dot product with the heading.
\<close>

definition allBehindCamera :: "camera_t \<Rightarrow> triangle_t \<Rightarrow> bool" where
  "allBehindCamera camera tri =
    (dotProduct (vectorDelta (t_p1 tri) (location camera)) (cameraDirection camera) \<le> 0 \<and>
     dotProduct (vectorDelta (t_p2 tri) (location camera)) (cameraDirection camera) \<le> 0 \<and>
     dotProduct (vectorDelta (t_p3 tri) (location camera)) (cameraDirection camera) \<le> 0)"

text \<open>
  \<^verbatim>\<open>Render_Engine_RenderFrame\<close>. The angles per pixel divide by \<^verbatim>\<open>width * 180.0\<close> and
  \<^verbatim>\<open>height * 180.0\<close>. For a frame with no columns or no rows the divisor is zero and
  the angle per pixel infinite (or NaN), which the real numbers cannot hold; what the
  code does then is written out instead. \<^verbatim>\<open>bufLength\<close> is 0, so the fill loop does
  nothing, and every test of \<^verbatim>\<open>paintPixel\<close> fails, so nothing is painted. With no
  columns every projected x is 0 or NaN and no loop is entered. With no rows every
  projected y is 0 or NaN and the walks run over the finite x coordinates, unless the
  horizontal field of view is zero as well and a triangle passes the test of lines 86
  to 88: its projected x coordinates are then infinite or NaN, as for a frame that has
  rows.
\<close>

definition Render_Engine_RenderFrame ::
  "world_t \<Rightarrow> camera_t \<Rightarrow> framebuffer_t \<Rightarrow> fault + framebuffer_t" where
  "Render_Engine_RenderFrame world camera frame =
    (let bufLength = unat (width frame) * unat (height frame);
         halfWidth = width frame div 2;
         halfHeight = height frame div 2
     in if width frame = 0 then Inr frame
        else if height frame = 0
        then (if fovHorizontal camera = 0 \<and>
                 list_ex (\<lambda>tri. \<not> allBehindCamera camera tri) (triangles world)
              then Inl NonFinite else Inr frame)
        else
          (let anglePerPixelHorizontal =
                 (fovHorizontal camera * M_PI) / (real (unat (width frame)) * 180);
               anglePerPixelVertical =
                 (fovVertical camera * M_PI) / (real (unat (height frame)) * 180)
           in case clearBuffer frame 0 bufLength (backgroundColor world) of
                Inl e \<Rightarrow> Inl e
              | Inr frame1 \<Rightarrow>
                  renderTriangles camera (cameraDirection camera)
                    (cameraHorizontalAngle camera) (cameraVerticalAngle camera)
                    anglePerPixelHorizontal anglePerPixelVertical halfWidth halfHeight
                    frame1 (sortedTriangles world camera)))"

section \<open>Decimal numbers, as the specification words them\<close>

text \<open>
  The decimal digits of a number with no leading zeros, the number 0 being the single
  digit \<open>0\<close>. This definition follows the specification's sentence and is what
  \<^verbatim>\<open>writeTerminalNumber\<close> is compared with.
\<close>

fun spec_decimal :: "nat \<Rightarrow> u8 list" where
  "spec_decimal n =
    (if n < 10 then [of_nat (48 + n)]
     else spec_decimal (n div 10) @ [of_nat (48 + n mod 10)])"

declare spec_decimal.simps [simp del]

text \<open>
  The bytes \<^verbatim>\<open>Render_Engine_DisplayFrame\<close> is expected to send for cell \<open>i\<close> of a frame
  of width \<open>w\<close> when no colour changes: the row separator before the first cell of every
  row but the first, then one space.
\<close>

definition cell_bytes :: "nat \<Rightarrow> nat \<Rightarrow> u8 list" where
  "cell_bytes w i = (if i > 0 \<and> i mod w = 0 then [13, 10] else []) @ [32]"

definition blank_cells :: "nat \<Rightarrow> nat \<Rightarrow> u8 list" where
  "blank_cells w k = concat (map (cell_bytes w) [0..<k])"

section \<open>The renderer, as the specification words it\<close>

text \<open>
  The yaw normalisation of the specification: \<open>((|yaw| + 180) mod 360) - 180\<close>, the sign
  put back when the yaw is negative. The remainder of a real number is the one that
  lies in \<open>[0, 360)\<close>.
\<close>

definition spec_normalized_yaw :: "real \<Rightarrow> real" where
  "spec_normalized_yaw yaw =
    (let m = (\<bar>yaw\<bar> + 180) - 360 * of_int \<lfloor>(\<bar>yaw\<bar> + 180) / 360\<rfloor> - 180
     in if yaw < 0 then - m else m)"



text \<open>
  The caller's contract on a framebuffer, what painting keeps of a frame, and the
  outcomes scan conversion can have: a frame of the same shape, or an access outside
  the buffer, and that only when the contract is broken.
\<close>

definition wellFormed :: "framebuffer_t \<Rightarrow> bool" where
  "wellFormed f = (length (buffer f) = unat (width f) * unat (height f))"

definition sameShape :: "framebuffer_t \<Rightarrow> framebuffer_t \<Rightarrow> bool" where
  "sameShape f g =
    (width g = width f \<and> height g = height f \<and> length (buffer g) = length (buffer f))"

definition paintOutcome :: "framebuffer_t \<Rightarrow> fault + framebuffer_t \<Rightarrow> bool" where
  "paintOutcome f r =
    (case r of
       Inl e \<Rightarrow> e = OutOfBounds \<and> \<not> wellFormed f
     | Inr g \<Rightarrow> sameShape f g)"

text \<open>
  The outcomes of a whole frame: those of scan conversion, or the stop at a zero angle
  per pixel.
\<close>

definition frameOutcome :: "framebuffer_t \<Rightarrow> fault + framebuffer_t \<Rightarrow> bool" where
  "frameOutcome f r =
    (case r of
       Inl e \<Rightarrow> e = NonFinite \<or> (e = OutOfBounds \<and> \<not> wellFormed f)
     | Inr g \<Rightarrow> sameShape f g)"

section \<open>Concrete inputs\<close>

text \<open>
  A camera at the origin looking along the x axis with a field of view of 90 degrees
  both ways, the same camera pitched by a number of degrees, a blank frame of four by
  four cells, a triangle whose three corners are the point one unit ahead of that
  camera, and a triangle one unit behind it.
\<close>

definition cameraAtOrigin :: camera_t where
  "cameraAtOrigin =
    \<lparr>location = \<lparr>vx = 0, vy = 0, vz = 0\<rparr>, rotation = \<lparr>vx = 0, vy = 0, vz = 0\<rparr>,
     fovHorizontal = 90, fovVertical = 90\<rparr>"

definition cameraPitched :: "real \<Rightarrow> camera_t" where
  "cameraPitched pitch =
    \<lparr>location = \<lparr>vx = 0, vy = 0, vz = 0\<rparr>, rotation = \<lparr>vx = 0, vy = pitch, vz = 0\<rparr>,
     fovHorizontal = 90, fovVertical = 90\<rparr>"

definition blankFrame :: framebuffer_t where
  "blankFrame = \<lparr>width = 4, height = 4, buffer = replicate 16 0\<rparr>"

definition pointTriangle :: triangle_t where
  "pointTriangle =
    \<lparr>t_color = 7, t_p1 = \<lparr>vx = 1, vy = 0, vz = 0\<rparr>, t_p2 = \<lparr>vx = 1, vy = 0, vz = 0\<rparr>,
     t_p3 = \<lparr>vx = 1, vy = 0, vz = 0\<rparr>\<rparr>"






text \<open>
  The same camera with a vertical field of view of a thousandth of a degree, and a
  triangle ahead of it with two corners on the heading and one below it.
\<close>

definition steepCamera :: camera_t where
  "steepCamera =
    \<lparr>location = \<lparr>vx = 0, vy = 0, vz = 0\<rparr>, rotation = \<lparr>vx = 0, vy = 0, vz = 0\<rparr>,
     fovHorizontal = 90, fovVertical = 1 / 1000\<rparr>"

definition tallTriangle :: triangle_t where
  "tallTriangle =
    \<lparr>t_color = 7, t_p1 = \<lparr>vx = 1, vy = 0, vz = 0\<rparr>, t_p2 = \<lparr>vx = 1, vy = 0, vz = 0\<rparr>,
     t_p3 = \<lparr>vx = 1, vy = 0, vz = - 1\<rparr>\<rparr>"

section \<open>Properties of the terminal side\<close>

subsection \<open>Writing a number\<close>

lemma digit_char: "(d::u8) + 48 = of_nat (48 + unat d)"
  by simp

lemma spec_decimal_1: "k < 10 \<Longrightarrow> spec_decimal k = [of_nat (48 + k)]"
  by (simp add: spec_decimal.simps)

lemma spec_decimal_2:
  "10 \<le> k \<Longrightarrow> k < 100 \<Longrightarrow> spec_decimal k = [of_nat (48 + k div 10), of_nat (48 + k mod 10)]"
  by (subst spec_decimal.simps) (simp add: spec_decimal_1)

lemma spec_decimal_3:
  assumes "100 \<le> k" "k < 1000"
  shows "spec_decimal k =
    [of_nat (48 + k div 100 mod 10), of_nat (48 + k div 10 mod 10), of_nat (48 + k mod 10)]"
proof -
  have b: "10 \<le> k div 10" "k div 10 < 100" using assms by auto
  have c: "k div 10 div 10 = k div 100 mod 10"
    using assms by (simp add: div_mult2_eq [symmetric])
  show ?thesis
    by (subst spec_decimal.simps) (use assms b c in \<open>simp add: spec_decimal_2\<close>)
qed

text \<open>What the three digit tests of \<^verbatim>\<open>writeTerminalNumber\<close> amount to on the value.\<close>

lemma writeTerminalNumber_digits:
  "writeTerminalNumber uart n =
     (let h = unat n div 100 mod 10; t = unat n div 10 mod 10; u = unat n mod 10 in
      uart @ (if h > 0 then [of_nat (48 + h), of_nat (48 + t), of_nat (48 + u)]
         else if t > 0 then [of_nat (48 + t), of_nat (48 + u)]
         else if u > 0 then [of_nat (48 + u)] else []))"
  unfolding writeTerminalNumber_def writeTerminalBlock_def Let_def
  by (simp add: digit_char unat_div unat_mod word_greater_zero_iff unat_gt_0 [symmetric]
      del: of_nat_add)

text \<open>
  Claim C3 says that \<^verbatim>\<open>writeTerminalNumber\<close> always sends at least the ones digit, the
  number 0 included. The code sends the ones digit only when it is non-zero or a higher
  digit was sent, so for 0 it sends nothing.
\<close>

theorem writeTerminalNumber_zero_counterexample:
  "writeTerminalNumber [] 0 = [] \<and> writeTerminalNumber [] 0 \<noteq> [] @ spec_decimal (unat (0::u8))"
  by (simp add: writeTerminalNumber_def spec_decimal.simps)

text \<open>
  Claim C3, amended: for every number from 1 to 255 \<^verbatim>\<open>writeTerminalNumber\<close> sends exactly
  its decimal digits with no leading zero; for the number 0 it sends no byte.
\<close>

theorem writeTerminalNumber_decimal:
  "writeTerminalNumber uart n = uart @ (if n = 0 then [] else spec_decimal (unat n))"
proof -
  have k: "unat n < 256" using unsigned_less [of n] by simp
  consider "unat n = 0" | "0 < unat n" "unat n < 10" | "10 \<le> unat n" "unat n < 100"
    | "100 \<le> unat n" "unat n < 1000"
    using k by linarith
  then show ?thesis
  proof cases
    case 1
    then have "n = 0" by (simp add: unat_eq_0)
    then show ?thesis by (simp add: writeTerminalNumber_digits)
  next
    case 2
    then have "n \<noteq> 0" by auto
    then show ?thesis using 2 by (simp add: writeTerminalNumber_digits spec_decimal_1)
  next
    case 3
    then have "n \<noteq> 0" by auto
    moreover have "unat n div 100 = 0" using 3 by simp
    moreover have "unat n div 10 mod 10 = unat n div 10" "0 < unat n div 10" using 3 by auto
    ultimately show ?thesis using 3 by (simp add: writeTerminalNumber_digits spec_decimal_2)
  next
    case 4
    then have "n \<noteq> 0" by auto
    moreover have "0 < unat n div 100 mod 10" using 4 by auto
    ultimately show ?thesis using 4 by (simp add: writeTerminalNumber_digits spec_decimal_3)
  qed
qed

subsection \<open>Displaying cells of colour 0\<close>

lemma cursor_home: "changeTerminalCursorLocation uart 0 0 = uart @ [27, 91, 49, 59, 49, 72]"
  by (simp add: changeTerminalCursorLocation_def writeTerminalNumber_def writeTerminalBlock_def)

lemma displayLoop_zero_step:
  assumes "i < n" "i < length (buffer frame)" "buffer frame ! i = 0"
  shows "displayLoop frame n i 0 uart =
         displayLoop frame n (Suc i) 0 (uart @ cell_bytes (unat (width frame)) i)"
  using assms
  by (subst displayLoop.simps) (simp add: cell_bytes_def writeTerminalBlock_def)

lemma displayLoop_zero_prefix:
  assumes "k \<le> n" "k \<le> length (buffer frame)" "\<forall>j<k. buffer frame ! j = 0"
  shows "displayLoop frame n 0 0 uart =
         displayLoop frame n k 0 (uart @ blank_cells (unat (width frame)) k)"
  using assms
proof (induction k)
  case 0
  then show ?case by (simp add: blank_cells_def)
next
  case (Suc k)
  then have "displayLoop frame n 0 0 uart =
         displayLoop frame n k 0 (uart @ blank_cells (unat (width frame)) k)" by simp
  also have "\<dots> = displayLoop frame n (Suc k) 0
       ((uart @ blank_cells (unat (width frame)) k) @ cell_bytes (unat (width frame)) k)"
    using Suc.prems by (intro displayLoop_zero_step) auto
  finally show ?case by (simp add: blank_cells_def)
qed

lemma displayLoop_done: "displayLoop frame n n lastColor uart = Inr uart"
  by (subst displayLoop.simps) simp

lemma blank_cells_bytes: "set (blank_cells w k) \<subseteq> {32, 13, 10}"
  by (auto simp: blank_cells_def cell_bytes_def)

text \<open>
  Claim C10: \<^verbatim>\<open>lastColor\<close> starts at 0, so while the first \<open>k\<close> cells hold colour 0 the
  display sends, after the cursor sequence \<^verbatim>\<open>ESC [ 1 ; 1 H\<close>, only spaces and row
  separators, and reaches cell \<open>k\<close> with \<^verbatim>\<open>lastColor\<close> still 0. When all cells are 0
  that is the whole output: no colour-change sequence (no further \<^verbatim>\<open>ESC\<close>) is sent.
\<close>

theorem display_zero_prefix:
  assumes "k \<le> unat (width frame) * unat (height frame)" "k \<le> length (buffer frame)"
    and "\<forall>j<k. buffer frame ! j = 0"
  shows "Render_Engine_DisplayFrame uart frame =
           displayLoop frame (unat (width frame) * unat (height frame)) k 0
             (uart @ [27, 91, 49, 59, 49, 72] @ blank_cells (unat (width frame)) k)
         \<and> set (blank_cells (unat (width frame)) k) \<subseteq> {32, 13, 10}
         \<and> (k = unat (width frame) * unat (height frame) \<longrightarrow>
              Render_Engine_DisplayFrame uart frame =
                Inr (uart @ [27, 91, 49, 59, 49, 72] @ blank_cells (unat (width frame)) k))"
proof -
  have 1: "Render_Engine_DisplayFrame uart frame =
           displayLoop frame (unat (width frame) * unat (height frame)) k 0
             (uart @ [27, 91, 49, 59, 49, 72] @ blank_cells (unat (width frame)) k)"
    unfolding Render_Engine_DisplayFrame_def cursor_home
    using displayLoop_zero_prefix [OF assms] by simp
  show ?thesis using 1 by (simp add: displayLoop_done blank_cells_bytes)
qed

theorem display_zero_prefix_witness:
  "Render_Engine_DisplayFrame [] \<lparr>width = 2, height = 2, buffer = [0, 0, 5, 0]\<rparr> =
     Inr [27, 91, 49, 59, 49, 72, 32, 32, 13, 10, 27, 91, 53, 109, 32, 27, 91, 109, 32]"
proof -
  let ?f = "\<lparr>width = 2, height = 2, buffer = [0, 0, 5, 0 :: u8]\<rparr>"
  have a: "(2::nat) \<le> unat (width ?f) * unat (height ?f)" "2 \<le> length (buffer ?f)"
    by simp_all
  have b: "\<forall>j<2. buffer ?f ! j = 0"
    by (simp add: less_Suc_eq eval_nat_numeral)
  have c: "blank_cells 2 2 = [32, 32]"
    by (simp add: blank_cells_def cell_bytes_def eval_nat_numeral)
  show ?thesis
    using display_zero_prefix [OF a b, of "[]"]
    by (simp add: c displayLoop.simps changeTerminalColor_def
        writeTerminalNumber_def writeTerminalBlock_def)
qed

section \<open>Properties of the camera angles\<close>

subsection \<open>Yaw\<close>

lemma fmod_nonneg: "0 \<le> a \<Longrightarrow> 0 < b \<Longrightarrow> fmod a b = a - b * of_int \<lfloor>a / b\<rfloor>"
  by (simp add: fmod_def)

lemma mod360_range:
  fixes a :: real
  shows "0 \<le> a - 360 * of_int \<lfloor>a / 360\<rfloor>" "a - 360 * of_int \<lfloor>a / 360\<rfloor> < 360"
proof -
  have "of_int \<lfloor>a / 360\<rfloor> \<le> a / 360" by (rule of_int_floor_le)
  then show "0 \<le> a - 360 * of_int \<lfloor>a / 360\<rfloor>" by linarith
  have "a / 360 < of_int \<lfloor>a / 360\<rfloor> + 1" by linarith
  then show "a - 360 * of_int \<lfloor>a / 360\<rfloor> < 360" by linarith
qed

text \<open>
  Claim C8 says that the normalised yaw lies in \<open>(-180, 180]\<close>. A yaw of exactly 180
  degrees is normalised to \<open>-180\<close>: 180 plus 180 is 360, whose remainder is 0.
\<close>

theorem yaw_180_counterexample:
  "normalizedYawDegrees \<lparr>location = \<lparr>vx = 0, vy = 0, vz = 0\<rparr>,
      rotation = \<lparr>vx = 0, vy = 0, vz = 180\<rparr>, fovHorizontal = 90, fovVertical = 90\<rparr> = - 180
   \<and> \<not> (- 180 < normalizedYawDegrees \<lparr>location = \<lparr>vx = 0, vy = 0, vz = 0\<rparr>,
      rotation = \<lparr>vx = 0, vy = 0, vz = 180\<rparr>, fovHorizontal = 90, fovVertical = 90\<rparr>)"
  by (simp add: normalizedYawDegrees_def fmod_def)

text \<open>
  Claim C8, amended: for every yaw the normalised angle in degrees is
  \<open>((|yaw| + 180) mod 360) - 180\<close> with the sign put back when the yaw is negative, the
  angle used afterwards is that value times \<^verbatim>\<open>M_PI / 180\<close>, and the value lies in
  \<open>[-180, 180]\<close>: in \<open>[-180, 180)\<close> for a yaw that is not negative and in \<open>(-180, 180]\<close>
  for a negative one.
\<close>

theorem yaw_normalization:
  "normalizedYawDegrees camera = spec_normalized_yaw (vz (rotation camera))
   \<and> cameraHorizontalAngle camera = spec_normalized_yaw (vz (rotation camera)) * (M_PI / 180)
   \<and> - 180 \<le> normalizedYawDegrees camera \<and> normalizedYawDegrees camera \<le> 180
   \<and> (if vz (rotation camera) < 0 then - 180 < normalizedYawDegrees camera
       else normalizedYawDegrees camera < 180)"
proof -
  let ?y = "vz (rotation camera)"
  have eq: "normalizedYawDegrees camera = spec_normalized_yaw ?y"
    by (simp add: normalizedYawDegrees_def spec_normalized_yaw_def Let_def fmod_nonneg abs_real_def)
  have r: "0 \<le> (\<bar>?y\<bar> + 180) - 360 * of_int \<lfloor>(\<bar>?y\<bar> + 180) / 360\<rfloor>"
     "(\<bar>?y\<bar> + 180) - 360 * of_int \<lfloor>(\<bar>?y\<bar> + 180) / 360\<rfloor> < 360"
    by (rule mod360_range)+
  show ?thesis
    using r unfolding eq cameraHorizontalAngle_def
    by (auto simp: spec_normalized_yaw_def Let_def)
qed

subsection \<open>Pitch and the heading vector\<close>

text \<open>The third component of the heading, as line 47 computes it.\<close>

lemma heading_z_as_written:
  "vz (cameraDirection camera) =
    (if cameraVerticalAngle camera \<le> - 90 \<or> 90 \<le> cameraVerticalAngle camera
     then tan (cameraVerticalAngle camera)
     else sgn (cameraVerticalAngle camera) * 10000)"
  by (auto simp: cameraDirection_def sgn_real_def)

text \<open>
  At a pitch of exactly 0 the difference \<^verbatim>\<open>(v > 0) - (v < 0)\<close> is 0, and so is the
  third component; the tangent of 0 is 0 as well.
\<close>

lemma heading_z_at_zero_pitch:
  "vz (cameraDirection (cameraPitched 0)) = 0 \<and> tan (cameraVerticalAngle (cameraPitched 0)) = 0"
  by (simp add: cameraDirection_def cameraVerticalAngle_def cameraPitched_def)

lemma pitch_in_radians: "cameraVerticalAngle (cameraPitched p) = p * pi / 180"
  by (simp add: cameraVerticalAngle_def cameraPitched_def M_PI_def)

text \<open>
  Claim C1 says that the third component of the heading is the tangent of the pitch
  while the pitch is within 90 degrees of level, and the sign of the pitch times 10000
  from 90 degrees on. Line 47 compares the angle in radians with the number 90 and takes
  the tangent when the angle is at most -90 or at least 90, the sign times 10000
  otherwise. So at a pitch of 20 degrees the component is 10000, not the tangent of 20
  degrees, which is below 1; and at a pitch of 9000 degrees, which is 50 times \<open>pi\<close>
  radians and more than 90, the component is the tangent of the angle, which is 0, not
  10000.
\<close>

theorem heading_z_selector_reversed:
  "vz (cameraDirection (cameraPitched 20)) = 10000
   \<and> tan (cameraVerticalAngle (cameraPitched 20)) < 1
   \<and> cameraVerticalAngle (cameraPitched 20) = 20 * pi / 180
   \<and> vz (cameraDirection (cameraPitched 9000)) = 0
   \<and> cameraVerticalAngle (cameraPitched 9000) = 9000 * pi / 180"
proof -
  have v: "cameraVerticalAngle (cameraPitched 20) = pi / 9"
    by (simp add: pitch_in_radians)
  have b: "0 < pi / 9" "pi / 9 < 90" "pi / 9 < pi / 4"
    using pi_gt_zero pi_less_4 by simp_all
  have l: "- (pi / 2) < pi / 9"
    using pi_gt_zero by linarith
  have u: "pi / 4 < pi / 2"
    using pi_gt_zero by linarith
  have "tan (pi / 9) < tan (pi / 4)"
    using l b(3) u by (rule tan_monotone)
  then have t: "tan (pi / 9) < 1" by (simp add: tan_45)
  have n1: "\<not> pi / 9 \<le> - 90"
    using pi_gt_zero by linarith
  have n2: "\<not> 90 \<le> pi / 9"
    using pi_less_4 by linarith
  have c: "\<not> (pi / 9 \<le> - 90 \<or> 90 \<le> pi / 9)"
    using n1 n2 by blast
  have "vz (cameraDirection (cameraPitched 20)) = sgn (pi / 9) * 10000"
    by (simp only: heading_z_as_written v c if_False)
  then have z: "vz (cameraDirection (cameraPitched 20)) = 10000"
    using pi_gt_zero by simp
  have w: "cameraVerticalAngle (cameraPitched 9000) = 50 * pi"
    by (simp add: pitch_in_radians)
  have "90 \<le> 50 * pi" using pi_ge_two by simp
  moreover have "tan (50 * pi) = 0"
    by (simp add: tan_def)
  ultimately have z2: "vz (cameraDirection (cameraPitched 9000)) = 0"
    by (simp add: heading_z_as_written w)
  from z t z2 show ?thesis by (simp add: v w)
qed

lemma camera_values:
  "cameraHorizontalAngle cameraAtOrigin = 0"
  "cameraVerticalAngle cameraAtOrigin = 0"
  "cameraDirection cameraAtOrigin = \<lparr>vx = 1, vy = 0, vz = 0\<rparr>"
  by (simp_all add: cameraAtOrigin_def cameraDirection_def cameraHorizontalAngle_def
      cameraVerticalAngle_def normalizedYawDegrees_def fmod_def)

lemma camera_fields:
  "fovHorizontal cameraAtOrigin = 90" "fovVertical cameraAtOrigin = 90"
  "location cameraAtOrigin = \<lparr>vx = 0, vy = 0, vz = 0\<rparr>"
  by (simp_all add: cameraAtOrigin_def)

lemma steep_values:
  "cameraHorizontalAngle steepCamera = 0"
  "cameraVerticalAngle steepCamera = 0"
  "cameraDirection steepCamera = \<lparr>vx = 1, vy = 0, vz = 0\<rparr>"
  "fovHorizontal steepCamera = 90" "fovVertical steepCamera = 1 / 1000"
  "location steepCamera = \<lparr>vx = 0, vy = 0, vz = 0\<rparr>"
  by (simp_all add: steepCamera_def cameraDirection_def cameraHorizontalAngle_def
      cameraVerticalAngle_def normalizedYawDegrees_def fmod_def)

section \<open>Properties of the depth sort\<close>






subsection \<open>Narrowing to \<^verbatim>\<open>float\<close>\<close>







subsection \<open>The comparator and the order it gives\<close>










section \<open>Properties of the classification\<close>

text \<open>
  Claim C9: for every three projected points the selectors are distinct, the branch
  that assigns \<^verbatim>\<open>center\<close> is always one of the three, the points chosen as left, centre
  and right are the three projected points in some order, each taken once, and their
  x coordinates are in non-decreasing order. (Coordinates are real numbers here, so none
  is a NaN.)
\<close>

theorem classification_permutation_sorted:
  "(case selectLeft p1 p2 p3 of (left, leftSel) \<Rightarrow>
     case selectRight p1 p2 p3 leftSel of (right, rightSel) \<Rightarrow>
       case selectCenter p1 p2 p3 leftSel rightSel of
         None \<Rightarrow> False
       | Some center \<Rightarrow>
           leftSel \<noteq> rightSel
         \<and> {leftSel, 6 - leftSel - rightSel, rightSel} = {1, 2, 3}
         \<and> left = [p1, p2, p3] ! (leftSel - 1)
         \<and> center = [p1, p2, p3] ! (6 - leftSel - rightSel - 1)
         \<and> right = [p1, p2, p3] ! (rightSel - 1)
         \<and> px left \<le> px center \<and> px center \<le> px right)"
  by (auto simp: selectLeft_def selectRight_def selectCenter_def Let_def)

lemma classification:
  obtains left leftSel right rightSel center where
    "selectLeft p1 p2 p3 = (left, leftSel)"
    "selectRight p1 p2 p3 leftSel = (right, rightSel)"
    "selectCenter p1 p2 p3 leftSel rightSel = Some center"
    "px left \<le> px center" "px center \<le> px right"
proof -
  have "\<exists>left leftSel right rightSel center.
    selectLeft p1 p2 p3 = (left, leftSel) \<and>
    selectRight p1 p2 p3 leftSel = (right, rightSel) \<and>
    selectCenter p1 p2 p3 leftSel rightSel = Some center \<and>
    px left \<le> px center \<and> px center \<le> px right"
    by (auto simp: selectLeft_def selectRight_def selectCenter_def Let_def)
  then show ?thesis using that by blast
qed

section \<open>What painting can do to a frame\<close>

lemma paintOutcome_same: "paintOutcome f (Inr f)"
  by (simp add: paintOutcome_def sameShape_def)

lemma paintOutcome_step:
  assumes "paintOutcome f r" and "\<And>g. r = Inr g \<Longrightarrow> paintOutcome g (k g)"
  shows "paintOutcome f (case r of Inl e \<Rightarrow> Inl e | Inr g \<Rightarrow> k g)"
proof (cases r)
  case (Inl e)
  with assms(1) show ?thesis by (simp add: paintOutcome_def)
next
  case (Inr g)
  with assms(1) have s: "sameShape f g" by (simp add: paintOutcome_def)
  from assms(2) [OF Inr] have "paintOutcome g (k g)" .
  with s have "paintOutcome f (k g)"
    by (auto simp: paintOutcome_def sameShape_def wellFormed_def split: sum.splits)
  with Inr show ?thesis by simp
qed

lemma pixel_index_bound:
  fixes a b w h :: nat
  assumes "a < w" "b < h"
  shows "a + b * w < w * h"
proof -
  have "a + b * w < w + b * w" using assms by simp
  also have "\<dots> = (Suc b) * w" by simp
  also have "\<dots> \<le> h * w" using assms by (intro mult_le_mono1) simp
  finally show ?thesis by (simp add: mult.commute)
qed

lemma paintOutcome_paintPixel: "paintOutcome f (paintPixel f x y c)"
  using pixel_index_bound [of "unat x" "unat (width f)" "unat y" "unat (height f)"]
  by (auto simp: paintPixel_def writeBuffer_def paintOutcome_def sameShape_def wellFormed_def)

lemma paintOutcome_paintPixelf: "paintOutcome f (paintPixelf f x y c)"
  by (simp add: paintPixelf_def paintOutcome_same paintOutcome_paintPixel)

lemma paintOutcome_paintColumn: "paintOutcome f (paintColumn f x y b c)"
proof (induction f x y b c rule: paintColumn.induct)
  case (1 frame x y bottomY color)
  show ?case
    by (subst paintColumn.simps)
       (auto intro!: paintOutcome_step paintOutcome_paintPixelf paintOutcome_same "1.IH")
qed

lemma paintOutcome_walkLeft: "paintOutcome f (walkLeft f x side u l c)"
proof (induction f x side u l c rule: walkLeft.induct)
  case (1 frame x side upperSlope lowerSlope color)
  show ?case
    by (subst walkLeft.simps)
       (auto simp: Let_def intro!: paintOutcome_step paintOutcome_paintPixelf
          paintOutcome_paintColumn paintOutcome_same "1.IH")
qed

lemma paintOutcome_walkRight: "paintOutcome f (walkRight f x side u l c)"
proof (induction f x side u l c rule: walkRight.induct)
  case (1 frame x side upperSlope lowerSlope color)
  show ?case
    by (subst walkRight.simps)
       (auto simp: Let_def intro!: paintOutcome_step paintOutcome_paintPixelf
          paintOutcome_paintColumn paintOutcome_same "1.IH")
qed

lemma paintOutcome_walkSpan: "paintOutcome f (walkSpan f x xEnd a b anchor c)"
proof (induction f x xEnd a b anchor c rule: walkSpan.induct)
  case (1 frame x xEnd slopeA slopeB anchor color)
  show ?case
    by (subst walkSpan.simps)
       (auto simp: Let_def intro!: paintOutcome_step paintOutcome_paintPixelf
          paintOutcome_paintColumn paintOutcome_same "1.IH")
qed

lemma paintOutcome_oneVerticalLine: "paintOutcome f (oneVerticalLine f p1 p2 p3 center c)"
  by (simp add: oneVerticalLine_def Let_def paintOutcome_same paintOutcome_paintColumn)

lemma paintOutcome_twoPointsInLine:
  assumes "px left \<noteq> px right"
    and "px left = px center \<or> px center = px right"
  shows "paintOutcome f (twoPointsInLine f left center right c)"
proof (cases "px left = px center")
  case True
  with assms have d: "px center \<noteq> px right" by simp
  show ?thesis
    using True d assms(1) unfolding twoPointsInLine_def
    by (auto simp: slope_def Let_def
        intro!: paintOutcome_step paintOutcome_walkRight paintOutcome_paintPixelf paintOutcome_same)
next
  case False
  with assms have d: "px center = px right" by simp
  show ?thesis
    using False d assms(1) unfolding twoPointsInLine_def
    by (auto simp: slope_def Let_def
        intro!: paintOutcome_step paintOutcome_walkLeft paintOutcome_paintPixelf paintOutcome_same)
qed

lemma paintOutcome_notInLine:
  assumes "px left \<noteq> px center" "px center \<noteq> px right" "px left \<noteq> px right"
  shows "paintOutcome f (notInLine f left center right c)"
  using assms unfolding notInLine_def
  by (auto simp: slope_def
      intro!: paintOutcome_step paintOutcome_walkSpan paintOutcome_paintPixelf paintOutcome_same)

text \<open>
  Scan conversion of three projected points ends with a frame of the same shape, or
  with an access outside the buffer when the buffer is not of width times height
  cells. In particular it never ends at a slope with a zero divisor.
\<close>

lemma paintOutcome_rasterize: "paintOutcome f (rasterize f p1 p2 p3 c)"
proof -
  obtain left leftSel right rightSel center where
    sel: "selectLeft p1 p2 p3 = (left, leftSel)"
      "selectRight p1 p2 p3 leftSel = (right, rightSel)"
      "selectCenter p1 p2 p3 leftSel rightSel = Some center"
    and ord: "px left \<le> px center" "px center \<le> px right"
    by (rule classification)
  consider "px left = px center \<and> px center = px right"
    | "\<not> (px left = px center \<and> px center = px right)" "px left = px center \<or> px center = px right"
    | "px left \<noteq> px center" "px center \<noteq> px right"
    by blast
  then show ?thesis
  proof cases
    case 1
    then show ?thesis
      by (simp add: rasterize_def sel paintOutcome_oneVerticalLine)
  next
    case 2
    then have "px left \<noteq> px right" by auto
    with 2 show ?thesis
      by (auto simp: rasterize_def sel paintOutcome_twoPointsInLine)
  next
    case 3
    with ord have "px left \<noteq> px right" by simp
    with 3 show ?thesis
      by (simp add: rasterize_def sel paintOutcome_notInLine)
  qed
qed

lemma frameOutcome_paint: "paintOutcome f r \<Longrightarrow> frameOutcome f r"
  by (auto simp: paintOutcome_def frameOutcome_def split: sum.splits)

lemma frameOutcome_step:
  assumes "frameOutcome f r" and "\<And>g. r = Inr g \<Longrightarrow> frameOutcome g (k g)"
  shows "frameOutcome f (case r of Inl e \<Rightarrow> Inl e | Inr g \<Rightarrow> k g)"
proof (cases r)
  case (Inl e)
  with assms(1) show ?thesis by (simp add: frameOutcome_def)
next
  case (Inr g)
  with assms(1) have s: "sameShape f g" by (simp add: frameOutcome_def)
  from assms(2) [OF Inr] have "frameOutcome g (k g)" .
  with s have "frameOutcome f (k g)"
    by (auto simp: frameOutcome_def sameShape_def wellFormed_def split: sum.splits)
  with Inr show ?thesis by simp
qed

lemma frameOutcome_drawTriangle:
  "frameOutcome f (drawTriangle ha va ah av hw hh f d1 d2 d3 c)"
proof -
  have p: "\<And>d. case pointToScreen d ha va ah av hw hh of Inl e \<Rightarrow> e = NonFinite | Inr q \<Rightarrow> True"
    by (simp add: pointToScreen_def Let_def)
  show ?thesis
    unfolding drawTriangle_def
    using p [of d1] p [of d2] p [of d3]
    by (auto simp: frameOutcome_paint paintOutcome_rasterize split: sum.splits)
       (simp_all add: frameOutcome_def)
qed

lemma frameOutcome_renderTriangle:
  "frameOutcome f (renderTriangle cam dir ha va ah av hw hh f t)"
  by (simp add: renderTriangle_def Let_def frameOutcome_paint paintOutcome_same
      frameOutcome_drawTriangle)

lemma frameOutcome_renderTriangles:
  "frameOutcome f (renderTriangles cam dir ha va ah av hw hh f ts)"
proof (induction ts arbitrary: f)
  case Nil
  show ?case by (simp add: frameOutcome_paint paintOutcome_same)
next
  case (Cons t ts)
  show ?case
    by (simp del: renderTriangles.simps add: renderTriangles.simps(2))
       (intro frameOutcome_step frameOutcome_renderTriangle Cons.IH)
qed

lemma paintOutcome_clearBuffer:
  "i \<le> n \<Longrightarrow> n \<le> unat (width f) * unat (height f) \<Longrightarrow> paintOutcome f (clearBuffer f i n c)"
proof (induction f i n c rule: clearBuffer.induct)
  case (1 frame i bufLength color)
  have w: "paintOutcome frame (writeBuffer frame i color)" if "i < bufLength"
    using that "1.prems"
    by (auto simp: writeBuffer_def paintOutcome_def sameShape_def wellFormed_def)
  show ?case
  proof (cases "i < bufLength")
    case True
    show ?thesis
      apply (subst clearBuffer.simps)
      apply (simp add: True)
      apply (rule paintOutcome_step [OF w [OF True]])
      apply (rule "1.IH" [OF True])
      using True "1.prems"
        apply (auto simp: writeBuffer_def split: if_splits)
      done
  next
    case False
    then show ?thesis by (subst clearBuffer.simps) (simp add: paintOutcome_same)
  qed
qed

lemma frameOutcome_RenderFrame: "frameOutcome f (Render_Engine_RenderFrame world camera f)"
proof -
  have clear: "frameOutcome f (clearBuffer f 0 (unat (width f) * unat (height f)) c)" for c
    by (rule frameOutcome_paint, rule paintOutcome_clearBuffer) simp_all
  have main: "frameOutcome f
      (case clearBuffer f 0 (unat (width f) * unat (height f)) c of
         Inl e \<Rightarrow> Inl e
       | Inr frame1 \<Rightarrow> renderTriangles cam dir ha va ah av hw hh frame1 ts)"
    for c cam dir ha va ah av hw hh ts
    using clear by (rule frameOutcome_step) (rule frameOutcome_renderTriangles)
  show ?thesis
    unfolding Render_Engine_RenderFrame_def Let_def
    by (simp add: main frameOutcome_def [of f "Inl NonFinite"] frameOutcome_paint
        paintOutcome_same)
qed

text \<open>
  For a framebuffer whose buffer has width times height cells, a frame never reads or
  writes outside the buffer, and it keeps the width, the height and the number of cells.
\<close>

lemma render_stays_in_buffer:
  assumes "wellFormed frame"
  shows "Render_Engine_RenderFrame world camera frame \<noteq> Inl OutOfBounds"
    and "Render_Engine_RenderFrame world camera frame = Inr g \<Longrightarrow> sameShape frame g"
  using assms frameOutcome_RenderFrame [of frame world camera]
  by (auto simp: frameOutcome_def)

lemma clearBuffer_fill:
  "i \<le> n \<Longrightarrow> n \<le> length (buffer f) \<Longrightarrow>
   clearBuffer f i n c = Inr (f\<lparr>buffer := take i (buffer f) @ replicate (n - i) c @ drop n (buffer f)\<rparr>)"
proof (induction f i n c rule: clearBuffer.induct)
  case (1 frame i bufLength color)
  show ?case
  proof (cases "i < bufLength")
    case True
    let ?g = "frame\<lparr>buffer := (buffer frame)[i := color]\<rparr>"
    have w: "writeBuffer frame i color = Inr ?g"
      using True "1.prems" by (simp add: writeBuffer_def)
    have "clearBuffer frame i bufLength color = clearBuffer ?g (i + 1) bufLength color"
      by (subst clearBuffer.simps) (simp add: True w)
    also have "\<dots> = Inr (?g\<lparr>buffer := take (i + 1) (buffer ?g) @ replicate (bufLength - (i + 1)) color
                          @ drop bufLength (buffer ?g)\<rparr>)"
      using True "1.prems" by (intro "1.IH" [OF True w]) auto
    also have "take (i + 1) (buffer ?g) = take i (buffer frame) @ [color]"
      using True "1.prems" by (simp add: take_Suc_conv_app_nth)
    also have "drop bufLength (buffer ?g) = drop bufLength (buffer frame)"
      using True by simp
    also have "(take i (buffer frame) @ [color]) @ replicate (bufLength - (i + 1)) color
                 @ drop bufLength (buffer frame)
             = take i (buffer frame) @ replicate (bufLength - i) color @ drop bufLength (buffer frame)"
      using True by (simp add: replicate_Suc [symmetric] Suc_diff_Suc del: replicate_Suc)
    finally show ?thesis by simp
  next
    case False
    with "1.prems" have "i = bufLength" by simp
    then show ?thesis by (subst clearBuffer.simps) simp
  qed
qed

lemma clearBuffer_all:
  "length (buffer f) = n \<Longrightarrow> clearBuffer f 0 n c = Inr (f\<lparr>buffer := replicate n c\<rparr>)"
  using clearBuffer_fill [of 0 n f c] by simp

lemma clear_blankFrame: "clearBuffer blankFrame 0 16 0 = Inr blankFrame"
  using clearBuffer_all [of blankFrame 16 0] by (simp add: blankFrame_def)

lemma blankFrame_dims: "width blankFrame = 4" "height blankFrame = 4"
  by (simp_all add: blankFrame_def)

section \<open>Properties of the scan conversion\<close>

subsection \<open>Slopes\<close>

text \<open>
  On coordinates that are numbers the classification of the x coordinates alone is the
  classification of the points.
\<close>

lemma selectX_numbers:
  "selectLeftX (Number (px p1)) (Number (px p2)) (Number (px p3)) =
     (Number (px (fst (selectLeft p1 p2 p3))), snd (selectLeft p1 p2 p3))"
  "selectRightX (Number (px p1)) (Number (px p2)) (Number (px p3)) leftSel =
     (Number (px (fst (selectRight p1 p2 p3 leftSel))), snd (selectRight p1 p2 p3 leftSel))"
  "selectCenterX (Number (px p1)) (Number (px p2)) (Number (px p3)) leftSel rightSel =
     map_option (\<lambda>p. Number (px p)) (selectCenter p1 p2 p3 leftSel rightSel)"
  by (simp_all add: selectLeftX_def selectLeft_def selectRightX_def selectRight_def
      selectCenterX_def selectCenter_def fp_greater_def fp_less_def Let_def)

text \<open>
  Claim C7 says that in every execution no slope divides by zero. The claim does not
  exclude a NaN among the projected coordinates. With x coordinates 2, NaN and 2 every
  comparison with the NaN is false: the first point stays the left one, the third the
  right one, the second is the centre, neither test for points in one column holds,
  and the general case divides by \<^verbatim>\<open>right.x - left.x\<close>, which is 0.
\<close>

theorem nan_vertex_zero_divisor_counterexample:
  "slopeDivisors (Number 2) NaN (Number 2) = [NaN, Number 0, NaN]
   \<and> Number 0 \<in> set (slopeDivisors (Number 2) NaN (Number 2))"
  by (simp add: slopeDivisors_def selectLeftX_def selectRightX_def selectCenterX_def
      fp_greater_def fp_less_def fp_equal_def fp_minus_def)

lemma slopeDivisors_nonzero:
  assumes "x1 \<noteq> NaN" "x2 \<noteq> NaN" "x3 \<noteq> NaN" "d \<in> set (slopeDivisors x1 x2 x3)"
  shows "d \<noteq> Number 0 \<and> d \<noteq> NaN"
  using assms
  by (cases x1; cases x2; cases x3)
     (auto simp: slopeDivisors_def selectLeftX_def selectRightX_def selectCenterX_def
        fp_greater_def fp_less_def fp_equal_def fp_minus_def Let_def
        split: if_splits)

text \<open>
  Claim C7, amended: when none of the three projected x coordinates is a NaN, none of
  the divisors of the slopes computed for the triangle is zero (nor a NaN); on real
  coordinates neither the scan conversion of three points nor a whole frame ends at a
  slope with a zero divisor.
\<close>

theorem slope_divisors_nonzero_without_nan:
  "(x1 \<noteq> NaN \<and> x2 \<noteq> NaN \<and> x3 \<noteq> NaN \<longrightarrow>
      (\<forall>d \<in> set (slopeDivisors x1 x2 x3). d \<noteq> Number 0 \<and> d \<noteq> NaN))
   \<and> rasterize frame p1 p2 p3 color \<noteq> Inl SlopeDivByZero
   \<and> Render_Engine_RenderFrame world camera frame \<noteq> Inl SlopeDivByZero"
  using paintOutcome_rasterize [of frame p1 p2 p3 color]
    frameOutcome_RenderFrame [of frame world camera] slopeDivisors_nonzero [of x1 x2 x3]
  by (auto simp: paintOutcome_def frameOutcome_def)

theorem slope_divisors_nonzero_without_nan_witness:
  "slopeDivisors (Number 1) (Number 1) (Number 3) = [Number (- 2), Number (- 2)]
   \<and> slopeDivisors (Number 0) PlusInfinity (Number 2) = [Number 2, PlusInfinity, PlusInfinity]
   \<and> Number 0 \<notin> set (slopeDivisors (Number 1) (Number 1) (Number 3))
   \<and> Number 0 \<notin> set (slopeDivisors (Number 0) PlusInfinity (Number 2))"
proof -
  have a: "slopeDivisors (Number 1) (Number 1) (Number 3) = [Number (- 2), Number (- 2)]"
    "slopeDivisors (Number 0) PlusInfinity (Number 2) = [Number 2, PlusInfinity, PlusInfinity]"
    by (simp_all add: slopeDivisors_def selectLeftX_def selectRightX_def selectCenterX_def
        fp_greater_def fp_less_def fp_equal_def fp_minus_def)
  have b: "Number 0 \<notin> set (slopeDivisors (Number 1) (Number 1) (Number 3))"
    using slope_divisors_nonzero_without_nan [of "Number 1" "Number 1" "Number 3", THEN conjunct1]
    by blast
  have c: "Number 0 \<notin> set (slopeDivisors (Number 0) PlusInfinity (Number 2))"
    using slope_divisors_nonzero_without_nan [of "Number 0" PlusInfinity "Number 2", THEN conjunct1]
    by blast
  from a b c show ?thesis by simp
qed

subsection \<open>Paint requests and the bounds of the frame\<close>

lemma unat_to_uint16:
  fixes v :: real
  assumes "0 \<le> v" "v < 65536"
  shows "unat (to_uint16 v) = nat \<lfloor>v\<rfloor>"
proof -
  have "0 \<le> \<lfloor>v\<rfloor>" "\<lfloor>v\<rfloor> < 65536" using assms by (simp_all add: floor_less_iff)
  then show ?thesis by (simp add: to_uint16_def unat_eq_nat_uint uint_word_of_int)
qed

text \<open>
  A request with a negative coordinate, or with both coordinates below 65536 and one of
  them at or beyond the width or the height, leaves the frame as it is.
\<close>

lemma paintPixelf_dropped:
  assumes "x < 0 \<or> y < 0 \<or>
     (x < 65536 \<and> y < 65536 \<and> (real (unat (width frame)) \<le> x \<or> real (unat (height frame)) \<le> y))"
  shows "paintPixelf frame x y color = Inr frame"
proof (cases "0 \<le> x \<and> 0 \<le> y")
  case False
  then show ?thesis by (auto simp: paintPixelf_def)
next
  case True
  with assms have b: "x < 65536" "y < 65536"
    and o: "real (unat (width frame)) \<le> x \<or> real (unat (height frame)) \<le> y"
    by auto
  have "unat (width frame) \<le> nat \<lfloor>x\<rfloor> \<or> unat (height frame) \<le> nat \<lfloor>y\<rfloor>"
    using o True by (auto simp: le_nat_floor)
  then show ?thesis
    using True b by (auto simp: paintPixelf_def paintPixel_def unat_to_uint16)
qed

text \<open>
  A request whose converted coordinates are inside the frame writes the cell at the
  converted coordinates.
\<close>

lemma paintPixelf_cell:
  assumes "0 \<le> x" "0 \<le> y" "wellFormed frame"
    and "unat (to_uint16 x) < unat (width frame)" "unat (to_uint16 y) < unat (height frame)"
  shows "paintPixelf frame x y color =
       Inr (frame\<lparr>buffer := (buffer frame)
              [unat (to_uint16 x) + unat (to_uint16 y) * unat (width frame) := color]\<rparr>)"
    and "unat (to_uint16 x) + unat (to_uint16 y) * unat (width frame) < length (buffer frame)"
proof -
  show l: "unat (to_uint16 x) + unat (to_uint16 y) * unat (width frame) < length (buffer frame)"
    using pixel_index_bound [OF assms(4,5)] assms(3) by (simp add: wellFormed_def)
  show "paintPixelf frame x y color =
       Inr (frame\<lparr>buffer := (buffer frame)
              [unat (to_uint16 x) + unat (to_uint16 y) * unat (width frame) := color]\<rparr>)"
    using assms l by (simp add: paintPixelf_def paintPixel_def writeBuffer_def)
qed

lemma paintPixelf_painted:
  assumes "0 \<le> x" "x < real (unat (width frame))" "0 \<le> y" "y < real (unat (height frame))"
    and "wellFormed frame"
  shows "paintPixelf frame x y color =
       Inr (frame\<lparr>buffer := (buffer frame)[nat \<lfloor>x\<rfloor> + nat \<lfloor>y\<rfloor> * unat (width frame) := color]\<rparr>)"
proof -
  have w: "unat (width frame) < 256" "unat (height frame) < 256"
    using unsigned_less [of "width frame"] unsigned_less [of "height frame"] by simp_all
  have b: "x < 65536" "y < 65536" using assms w by linarith+
  have i: "nat \<lfloor>x\<rfloor> < unat (width frame)" "nat \<lfloor>y\<rfloor> < unat (height frame)"
    using assms by (simp_all add: nat_less_iff floor_less_iff)
  show ?thesis
    using paintPixelf_cell(1) [of x y frame color] assms i b
    by (simp add: unat_to_uint16)
qed

text \<open>Painting with a colour keeps every cell that already has that colour.\<close>

lemma paintPixelf_keeps:
  "paintPixelf f x y c = Inr g \<Longrightarrow> buffer f ! i = c \<Longrightarrow> buffer g ! i = c"
  by (auto simp: paintPixelf_def paintPixel_def writeBuffer_def nth_list_update split: if_splits)

lemma paintPixelf_shape:
  "paintPixelf f x y c = Inr g \<Longrightarrow> sameShape f g"
  using paintOutcome_paintPixelf [of f x y c] by (simp add: paintOutcome_def)

lemma sameShape_wellFormed: "sameShape f g \<Longrightarrow> wellFormed f \<Longrightarrow> wellFormed g"
  by (simp add: sameShape_def wellFormed_def)

lemma paintColumn_keeps:
  "paintColumn f x y b c = Inr g \<Longrightarrow> buffer f ! i = c \<Longrightarrow> buffer g ! i = c"
proof (induction f x y b c rule: paintColumn.induct)
  case (1 frame x y bottomY color)
  show ?case
  proof (cases "y > bottomY")
    case False
    with "1.prems" show ?thesis by (subst (asm) paintColumn.simps) simp
  next
    case True
    with "1.prems"(1) obtain f1 where p: "paintPixelf frame x y color = Inr f1"
      and r: "paintColumn f1 x (y - 1) bottomY color = Inr g"
      by (subst (asm) paintColumn.simps) (auto split: sum.splits)
    have "buffer f1 ! i = color"
      using p "1.prems"(2) by (rule paintPixelf_keeps)
    then show ?thesis
      using "1.IH" [OF True p r] by simp
  qed
qed

text \<open>
  The column loop paints every request on its way: the one at the \<open>k\<close>-th value below
  the top, if that value is still above the bottom and its converted coordinates are
  inside the frame, has its cell painted when the loop ends.
\<close>

lemma paintColumn_reaches:
  "paintColumn f x y b c = Inr g \<Longrightarrow> wellFormed f \<Longrightarrow>
   b < y - real k \<Longrightarrow> 0 \<le> x \<Longrightarrow> 0 \<le> y - real k \<Longrightarrow>
   unat (to_uint16 x) < unat (width f) \<Longrightarrow>
   unat (to_uint16 (y - real k)) < unat (height f) \<Longrightarrow>
   buffer g ! (unat (to_uint16 x) + unat (to_uint16 (y - real k)) * unat (width f)) = c"
proof (induction f x y b c arbitrary: k rule: paintColumn.induct)
  case (1 frame x y bottomY color)
  have above: "y > bottomY"
    using "1.prems"(3) by linarith
  have "(case paintPixelf frame x y color of
           Inl e \<Rightarrow> Inl e
         | Inr frame' \<Rightarrow> paintColumn frame' x (y - 1) bottomY color) = Inr g"
    using "1.prems"(1) above by (subst (asm) paintColumn.simps) simp
  then obtain f1 where p: "paintPixelf frame x y color = Inr f1"
    and r: "paintColumn f1 x (y - 1) bottomY color = Inr g"
    by (cases "paintPixelf frame x y color") simp_all
  have s: "sameShape frame f1"
    using p by (rule paintPixelf_shape)
  then have wf1: "wellFormed f1"
    using "1.prems"(2) by (rule sameShape_wellFormed)
  have dims: "width f1 = width frame" "height f1 = height frame"
    using s by (simp_all add: sameShape_def)
  show ?case
  proof (cases k)
    case 0
    then have k0: "y - real k = y" by simp
    have at: "0 \<le> y" "unat (to_uint16 y) < unat (height frame)"
      using "1.prems"(5,7) unfolding k0 .
    let ?i = "unat (to_uint16 x) + unat (to_uint16 y) * unat (width frame)"
    have "paintPixelf frame x y color = Inr (frame\<lparr>buffer := (buffer frame)[?i := color]\<rparr>)"
      using "1.prems"(4) at(1) "1.prems"(2,6) at(2) by (rule paintPixelf_cell(1))
    with p have "f1 = frame\<lparr>buffer := (buffer frame)[?i := color]\<rparr>"
      by simp
    moreover have "?i < length (buffer frame)"
      using "1.prems"(4) at(1) "1.prems"(2,6) at(2) by (rule paintPixelf_cell(2))
    ultimately have "buffer f1 ! ?i = color"
      by simp
    with r have "buffer g ! ?i = color"
      by (rule paintColumn_keeps)
    then show ?thesis
      unfolding k0 .
  next
    case (Suc k')
    then have e: "y - real k = y - 1 - real k'" by simp
    have "buffer g ! (unat (to_uint16 x) + unat (to_uint16 (y - 1 - real k')) * unat (width f1)) = color"
    proof (rule "1.IH" [OF above p r wf1])
      show "bottomY < y - 1 - real k'" using "1.prems"(3) unfolding e .
      show "0 \<le> x" by (rule "1.prems"(4))
      show "0 \<le> y - 1 - real k'" using "1.prems"(5) unfolding e .
      show "unat (to_uint16 x) < unat (width f1)" using "1.prems"(6) unfolding dims .
      show "unat (to_uint16 (y - 1 - real k')) < unat (height f1)"
        using "1.prems"(7) unfolding e dims .
    qed
    then show ?thesis
      unfolding e dims .
  qed
qed

text \<open>
  The column loop changes no cell outside the column its converted x coordinate names,
  and so neither does the branch for three points in one column, whose x coordinate is
  inside the frame.
\<close>

lemma paintPixelf_other_columns:
  assumes "paintPixelf frame x y c = Inr g" "i mod unat (width frame) \<noteq> unat (to_uint16 x)"
  shows "buffer g ! i = buffer frame ! i"
proof (cases "0 \<le> x \<and> 0 \<le> y
    \<and> unat (to_uint16 x) < unat (width frame) \<and> unat (to_uint16 y) < unat (height frame)")
  case True
  let ?idx = "unat (to_uint16 x) + unat (to_uint16 y) * unat (width frame)"
  have "?idx mod unat (width frame) = unat (to_uint16 x)" using True by simp
  with assms(2) have "i \<noteq> ?idx" by auto
  with assms(1) True show ?thesis
    by (auto simp: paintPixelf_def paintPixel_def writeBuffer_def split: if_splits)
next
  case False
  with assms(1) have "g = frame"
    by (auto simp: paintPixelf_def paintPixel_def split: if_splits)
  then show ?thesis by simp
qed

lemma paintColumn_other_columns:
  "paintColumn frame x y b c = Inr g \<Longrightarrow> i mod unat (width frame) \<noteq> unat (to_uint16 x) \<Longrightarrow>
   buffer g ! i = buffer frame ! i"
proof (induction frame x y b c rule: paintColumn.induct)
  case (1 frame x y bottomY color)
  show ?case
  proof (cases "y > bottomY")
    case False
    with "1.prems" show ?thesis by (subst (asm) paintColumn.simps) simp
  next
    case True
    with "1.prems"(1) obtain f1 where p: "paintPixelf frame x y color = Inr f1"
      and r: "paintColumn f1 x (y - 1) bottomY color = Inr g"
      by (subst (asm) paintColumn.simps) (auto split: sum.splits)
    have w: "width f1 = width frame"
      using paintPixelf_shape [OF p] by (simp add: sameShape_def)
    have "buffer g ! i = buffer f1 ! i"
      using "1.IH" [OF True p r] "1.prems"(2) w by simp
    also have "\<dots> = buffer frame ! i"
      using p "1.prems"(2) by (rule paintPixelf_other_columns)
    finally show ?thesis .
  qed
qed

lemma oneVerticalLine_other_columns:
  assumes "oneVerticalLine frame p1 p2 p3 center c = Inr g"
    and "i mod unat (width frame) \<noteq> nat \<lfloor>px center\<rfloor>"
  shows "buffer g ! i = buffer frame ! i"
proof (cases "px center < 0 \<or> px center \<ge> real (unat (width frame))")
  case True
  with assms(1) show ?thesis by (simp add: oneVerticalLine_def)
next
  case False
  have "unat (width frame) < 256"
    using unsigned_less [of "width frame"] by simp
  moreover have "px center < real (unat (width frame))" "0 \<le> px center"
    using False by simp_all
  ultimately have "px center < 65536"
    by linarith
  with \<open>0 \<le> px center\<close> have "unat (to_uint16 (px center)) = nat \<lfloor>px center\<rfloor>"
    by (rule unat_to_uint16)
  with assms False show ?thesis
    by (auto simp: oneVerticalLine_def Let_def paintColumn_other_columns)
qed

subsection \<open>Requests far outside the frame\<close>

lemma wellFormed_blankFrame: "wellFormed blankFrame"
  by (simp add: wellFormed_def blankFrame_def)

lemma blank_buffer: "replicate 16 (0::u8) = [0, 0, 0, 0, 0, 0, 0, 0, 0, 0, 0, 0, 0, 0, 0, 0]"
  by (simp add: eval_nat_numeral)

lemma wrapped_rows:
  "unat (to_uint16 2) = 2"
  "unat (to_uint16 65536) = 0" "unat (to_uint16 65537) = 1"
  "unat (to_uint16 65538) = 2" "unat (to_uint16 65539) = 3"
  by (simp_all add: to_uint16_def)

text \<open>
  The column from row 180002 down to row 2 of column 2, in a frame of four rows. The
  requests at rows 65536 to 65539 are converted to rows 0 to 3 and painted.
\<close>

lemma tall_column:
  "paintColumn blankFrame 2 180002 2 7 =
     Inr (blankFrame\<lparr>buffer := [0, 0, 7, 0, 0, 0, 7, 0, 0, 0, 7, 0, 0, 0, 7, 0]\<rparr>)"
proof -
  obtain g where g: "paintColumn blankFrame 2 180002 2 7 = Inr g" and s: "sameShape blankFrame g"
    using paintOutcome_paintColumn [of blankFrame 2 180002 2 7] wellFormed_blankFrame
    by (cases "paintColumn blankFrame 2 180002 2 7") (auto simp: paintOutcome_def)
  have r0: "buffer g ! 2 = 7"
    using paintColumn_reaches [OF g wellFormed_blankFrame, of 114466]
    by (simp add: wrapped_rows blankFrame_dims)
  have r1: "buffer g ! 6 = 7"
    using paintColumn_reaches [OF g wellFormed_blankFrame, of 114465]
    by (simp add: wrapped_rows blankFrame_dims)
  have r2: "buffer g ! 10 = 7"
    using paintColumn_reaches [OF g wellFormed_blankFrame, of 114464]
    by (simp add: wrapped_rows blankFrame_dims)
  have r3: "buffer g ! 14 = 7"
    using paintColumn_reaches [OF g wellFormed_blankFrame, of 114463]
    by (simp add: wrapped_rows blankFrame_dims)
  have other: "buffer g ! cell = 0" if "cell < 16" "cell mod 4 \<noteq> 2" for cell
    using paintColumn_other_columns [OF g, of cell] that
    by (simp add: wrapped_rows blankFrame_dims blankFrame_def)
  have len: "length (buffer g) = 16"
    using s by (simp add: sameShape_def blankFrame_def)
  have "buffer g = [0, 0, 7, 0, 0, 0, 7, 0, 0, 0, 7, 0, 0, 0, 7, 0]"
  proof (rule nth_equalityI)
    show "length (buffer g) = length [0, 0, 7, 0, 0, 0, 7, 0, 0, 0, 7, 0, 0, 0, 7, 0 :: u8]"
      using len by simp
    fix cell assume "cell < length (buffer g)"
    then have "cell < 16" using len by simp
    then have "cell \<in> {0, 1, 2, 3, 4, 5, 6, 7, 8, 9, 10, 11, 12, 13, 14, 15}"
      by simp presburger
    then show "buffer g ! cell = [0, 0, 7, 0, 0, 0, 7, 0, 0, 0, 7, 0, 0, 0, 7, 0] ! cell"
      using r0 r1 r2 r3 other [of cell] by (elim insertE emptyE) simp_all
  qed
  moreover have "width g = 4" "height g = 4"
    using s by (simp_all add: sameShape_def blankFrame_def)
  ultimately have "g = blankFrame\<lparr>buffer := [0, 0, 7, 0, 0, 0, 7, 0, 0, 0, 7, 0, 0, 0, 7, 0]\<rparr>"
    by (simp add: blankFrame_def)
  with g show ?thesis by simp
qed

lemma pi_not_le_zero: "\<not> pi \<le> 0"
  using pi_gt_zero by linarith

lemma project_level:
  "av \<noteq> 0 \<Longrightarrow>
   pointToScreen \<lparr>vx = 1, vy = 0, vz = 0\<rparr> 0 0 (pi / 8) av 2 2 = Inr \<lparr>px = 2, py = 2\<rparr>"
  by (simp add: pointToScreen_def atan2_def M_PI_def pi_not_le_zero)

lemma project_below:
  "pointToScreen \<lparr>vx = 1, vy = 0, vz = - 1\<rparr> 0 0 (pi / 8) (pi / 720000) 2 2 =
     Inr \<lparr>px = 2, py = 180002\<rparr>"
  by (simp add: pointToScreen_def atan2_def M_PI_def arctan_minus arctan_one pi_not_le_zero)

lemma render_tallTriangle:
  "Render_Engine_RenderFrame \<lparr>backgroundColor = 0, triangles = [tallTriangle]\<rparr>
       steepCamera blankFrame =
     Inr (blankFrame\<lparr>buffer := [0, 0, 7, 0, 0, 0, 7, 0, 0, 0, 7, 0, 0, 0, 7, 0]\<rparr>)"
proof -
  have shape: "rasterize blankFrame \<lparr>px = 2, py = 2\<rparr> \<lparr>px = 2, py = 2\<rparr> \<lparr>px = 2, py = 180002\<rparr> 7 =
      paintColumn blankFrame 2 180002 2 7"
    by (simp add: rasterize_def selectLeft_def selectRight_def selectCenter_def
        oneVerticalLine_def blankFrame_dims)
  have draw: "renderTriangle steepCamera \<lparr>vx = 1, vy = 0, vz = 0\<rparr> 0 0
      (pi / 8) (pi / 720000) 2 2 blankFrame tallTriangle =
      Inr (blankFrame\<lparr>buffer := [0, 0, 7, 0, 0, 0, 7, 0, 0, 0, 7, 0, 0, 0, 7, 0]\<rparr>)"
    by (simp add: renderTriangle_def steep_values tallTriangle_def vectorDelta_def dotProduct_def
        drawTriangle_def project_level project_below shape tall_column pi_not_le_zero)
  show ?thesis
    by (simp add: Render_Engine_RenderFrame_def blankFrame_dims steep_values clear_blankFrame
        sortedTriangles_def M_PI_def draw)
qed

text \<open>
  A triangle with a vertical edge at column 65537 and its third corner at column 65535:
  the walk from the edge has no test of the column, unlike the other two shapes
  (lines 142, 260 and 291), and its requests at columns 65537 and 65536 are converted
  to columns 1 and 0.
\<close>

lemma rasterize_far_right:
  "rasterize blankFrame \<lparr>px = 65535, py = 1\<rparr> \<lparr>px = 65537, py = 0\<rparr> \<lparr>px = 65537, py = 2\<rparr> 7 =
     Inr (blankFrame\<lparr>buffer := [7, 7, 0, 0, 7, 7, 0, 0, 0, 7, 0, 0, 0, 0, 0, 0]\<rparr>)"
proof -
  have "rasterize blankFrame \<lparr>px = 65535, py = 1\<rparr> \<lparr>px = 65537, py = 0\<rparr> \<lparr>px = 65537, py = 2\<rparr> 7 =
     Inr (blankFrame\<lparr>buffer := (replicate 16 0)[9 := 7, 5 := 7, 1 := 7, 4 := 7, 0 := 7]\<rparr>)"
    by (simp add: rasterize_def selectLeft_def selectRight_def selectCenter_def
        twoPointsInLine_def slope_def walkLeft.simps paintColumn.simps snapToMiddle_def
        paintPixelf_def paintPixel_def to_uint16_def writeBuffer_def blankFrame_def)
  then show ?thesis
    by (simp add: blank_buffer eval_nat_numeral)
qed

text \<open>
  Claim C4 says that a paint request outside the frame is dropped however large its
  coordinates are. \<^verbatim>\<open>paintPixelf\<close> converts both coordinates to \<^verbatim>\<open>uint16_t\<close> before
  \<^verbatim>\<open>paintPixel\<close> compares them with the width and the height, so a request at column
  65536 paints column 0. The walk from a vertical edge at column 65537 paints columns 1
  and 0 of a frame four cells wide. And a whole frame, of one triangle that projects to
  rows 2 to 180002 of column 2 in a frame of four rows, has rows 0 and 1 of that column
  painted, which lie above the triangle.
\<close>

theorem paint_requests_beyond_65535_are_painted:
  "paintPixelf blankFrame 65536 0 7 =
     Inr (blankFrame\<lparr>buffer := [7, 0, 0, 0, 0, 0, 0, 0, 0, 0, 0, 0, 0, 0, 0, 0]\<rparr>)
   \<and> rasterize blankFrame \<lparr>px = 65535, py = 1\<rparr> \<lparr>px = 65537, py = 0\<rparr> \<lparr>px = 65537, py = 2\<rparr> 7 =
     Inr (blankFrame\<lparr>buffer := [7, 7, 0, 0, 7, 7, 0, 0, 0, 7, 0, 0, 0, 0, 0, 0]\<rparr>)
   \<and> Render_Engine_RenderFrame \<lparr>backgroundColor = 0, triangles = [tallTriangle]\<rparr>
       steepCamera blankFrame =
     Inr (blankFrame\<lparr>buffer := [0, 0, 7, 0, 0, 0, 7, 0, 0, 0, 7, 0, 0, 0, 7, 0]\<rparr>)"
proof -
  have "paintPixelf blankFrame 65536 0 7 =
     Inr (blankFrame\<lparr>buffer := (replicate 16 0)[0 := 7]\<rparr>)"
    by (simp add: paintPixelf_def paintPixel_def to_uint16_def writeBuffer_def blankFrame_def)
  then have "paintPixelf blankFrame 65536 0 7 =
     Inr (blankFrame\<lparr>buffer := [7, 0, 0, 0, 0, 0, 0, 0, 0, 0, 0, 0, 0, 0, 0, 0]\<rparr>)"
    by (simp add: blank_buffer)
  then show ?thesis
    using rasterize_far_right render_tallTriangle by simp
qed

subsection \<open>Triangles behind the camera\<close>






subsection \<open>Two triangles ahead of the camera\<close>









subsection \<open>Three points in one column\<close>

lemma rasterize_point:
  "rasterize blankFrame \<lparr>px = 2, py = 2\<rparr> \<lparr>px = 2, py = 2\<rparr> \<lparr>px = 2, py = 2\<rparr> 7 = Inr blankFrame"
  by (simp add: rasterize_def selectLeft_def selectRight_def selectCenter_def oneVerticalLine_def
      blankFrame_def paintColumn.simps)

text \<open>
  Claim C2 says that three points in one column paint the rows from the lowest to the
  highest of their y values, both ends included. The loop of line 163 stops before
  the lowest value and, unlike the four other column loops, is not followed by a paint
  at that value. A triangle whose corners are all the point ahead of the camera
  projects to the cell (2, 2) three times and paints nothing; points at rows 5, 3
  and 2 of column 1 paint rows 5, 4 and 3 (cells 21, 17 and 13 of a frame four cells
  wide) and leave row 2 as it was.
\<close>

theorem degenerate_column_omits_lowest_row:
  "Render_Engine_RenderFrame \<lparr>backgroundColor = 0, triangles = [pointTriangle]\<rparr>
      cameraAtOrigin blankFrame = Inr blankFrame
   \<and> rasterize \<lparr>width = 4, height = 8, buffer = replicate 32 0\<rparr>
        \<lparr>px = 1, py = 5\<rparr> \<lparr>px = 1, py = 3\<rparr> \<lparr>px = 1, py = 2\<rparr> 7 =
      Inr \<lparr>width = 4, height = 8, buffer = (replicate 32 0)[21 := 7, 17 := 7, 13 := 7]\<rparr>"
proof -
  have draw: "renderTriangle cameraAtOrigin \<lparr>vx = 1, vy = 0, vz = 0\<rparr> 0 0
      (pi / 8) (pi / 8) 2 2 blankFrame pointTriangle = Inr blankFrame"
    by (simp add: renderTriangle_def camera_fields pointTriangle_def vectorDelta_def dotProduct_def
        drawTriangle_def project_level pi_not_le_zero rasterize_point)
  have 1: "Render_Engine_RenderFrame \<lparr>backgroundColor = 0, triangles = [pointTriangle]\<rparr>
      cameraAtOrigin blankFrame = Inr blankFrame"
    by (simp add: Render_Engine_RenderFrame_def blankFrame_dims camera_fields clear_blankFrame
        sortedTriangles_def camera_values M_PI_def draw)
  have 2: "rasterize \<lparr>width = 4, height = 8, buffer = replicate 32 0\<rparr>
        \<lparr>px = 1, py = 5\<rparr> \<lparr>px = 1, py = 3\<rparr> \<lparr>px = 1, py = 2\<rparr> 7 =
      Inr \<lparr>width = 4, height = 8, buffer = (replicate 32 0)[21 := 7, 17 := 7, 13 := 7]\<rparr>"
    by (simp add: rasterize_def selectLeft_def selectRight_def selectCenter_def oneVerticalLine_def
       paintColumn.simps paintPixelf_def paintPixel_def to_uint16_def writeBuffer_def)
  from 1 2 show ?thesis by simp
qed

end
